theory Spec2Isabelle
  imports Main "HOL-Library.Word" "HOL-Library.AList"
begin

unbundle bit_operations_syntax

section \<open>Go library functions used by the program\<close>

text \<open>
  Go strings are byte sequences; they are modelled as \<open>string\<close> (a list of \<open>char\<close>, one per
  byte), and a string's text is its UTF-8 reading, as in Go.
\<close>

text \<open>\<open>fmt.Sprintf("%d", n)\<close>: decimal rendering of an integer.\<close>

fun utoa :: "nat \<Rightarrow> string" where
  "utoa n = (if n < 10 then [''0123456789'' ! n]
             else utoa (n div 10) @ [''0123456789'' ! (n mod 10)])"

declare utoa.simps [simp del]

definition itoa :: "int \<Rightarrow> string" where
  "itoa i = (if i < 0 then CHR ''-'' # utoa (nat (- i)) else utoa (nat i))"

text \<open>Carriage return, line feed and the line terminator of RTSP.\<close>

definition CR :: char where "CR = CHR 0x0D"
definition LF :: char where "LF = CHR 0x0A"
definition CRLF :: string where "CRLF = [CR, LF]"

definition HasPrefix :: "string \<Rightarrow> string \<Rightarrow> bool" where
  "HasPrefix s p = (take (length p) s = p)"

text \<open>Bytes below \<open>utf8.RuneSelf\<close>.\<close>

definition isASCII :: "char \<Rightarrow> bool" where
  "isASCII c = (of_char c < (128::nat))"

text \<open>
  The runes for which \<open>unicode.IsSpace\<close> holds, each by its UTF-8 encoding: U+0009 to U+000D,
  U+0020, U+0085, U+00A0, U+1680, U+2000 to U+200A, U+2028, U+2029, U+202F, U+205F and
  U+3000.
\<close>

definition spaceRunes :: "string list" where
  "spaceRunes =
    [[CHR 0x09], [CHR 0x0A], [CHR 0x0B], [CHR 0x0C], [CHR 0x0D], [CHR 0x20],
     [CHR 0xC2, CHR 0x85], [CHR 0xC2, CHR 0xA0],
     [CHR 0xE1, CHR 0x9A, CHR 0x80],
     [CHR 0xE2, CHR 0x80, CHR 0x80], [CHR 0xE2, CHR 0x80, CHR 0x81],
     [CHR 0xE2, CHR 0x80, CHR 0x82], [CHR 0xE2, CHR 0x80, CHR 0x83],
     [CHR 0xE2, CHR 0x80, CHR 0x84], [CHR 0xE2, CHR 0x80, CHR 0x85],
     [CHR 0xE2, CHR 0x80, CHR 0x86], [CHR 0xE2, CHR 0x80, CHR 0x87],
     [CHR 0xE2, CHR 0x80, CHR 0x88], [CHR 0xE2, CHR 0x80, CHR 0x89],
     [CHR 0xE2, CHR 0x80, CHR 0x8A],
     [CHR 0xE2, CHR 0x80, CHR 0xA8], [CHR 0xE2, CHR 0x80, CHR 0xA9],
     [CHR 0xE2, CHR 0x80, CHR 0xAF],
     [CHR 0xE2, CHR 0x81, CHR 0x9F],
     [CHR 0xE3, CHR 0x80, CHR 0x80]]"

text \<open>
  The width in bytes of the rune of \<open>rs\<close> that \<open>s\<close> starts with, 0 when it starts with none.
  For \<open>spaceRunes\<close> this is what \<open>utf8.DecodeRuneInString\<close> followed by \<open>unicode.IsSpace\<close>
  decides: a rune has one valid encoding, and bytes that are not a valid encoding decode to
  U+FFFD of width 1, which is not white space.
\<close>

definition runeWidth :: "string list \<Rightarrow> string \<Rightarrow> nat" where
  "runeWidth rs s = (case find (HasPrefix s) rs of None \<Rightarrow> 0 | Some p \<Rightarrow> length p)"

text \<open>\<open>strings.TrimLeftFunc\<close>: drop the runes of \<open>rs\<close> that \<open>s\<close> starts with.\<close>

function dropRunes :: "string list \<Rightarrow> string \<Rightarrow> string" where
  "dropRunes rs s =
    (if s = [] \<or> runeWidth rs s = 0 then s else dropRunes rs (drop (runeWidth rs s) s))"
  by pat_completeness auto
termination
  by (relation "measure (\<lambda>(rs, s). length s)") auto

declare dropRunes.simps [simp del]

text \<open>
  \<open>strings.TrimSpace\<close>: the white-space runes are dropped from the start, then from the end.
  From the end the library decodes backwards (\<open>utf8.DecodeLastRuneInString\<close>); a white-space
  rune ends the string exactly when its encoding is a suffix of the string, which is a prefix
  of the reversed string. The library's fast path for ASCII gives the same result.
\<close>

definition TrimSpace :: "string \<Rightarrow> string" where
  "TrimSpace s = rev (dropRunes (map rev spaceRunes) (rev (dropRunes spaceRunes s)))"

fun Contains :: "string \<Rightarrow> string \<Rightarrow> bool" where
  "Contains [] sub = (sub = [])"
| "Contains (c # cs) sub = (HasPrefix (c # cs) sub \<or> Contains cs sub)"

text \<open>\<open>strings.Index\<close>: the offset of the first occurrence, \<open>None\<close> for Go's \<open>-1\<close>.\<close>

fun Index :: "string \<Rightarrow> string \<Rightarrow> nat option" where
  "Index [] sub = (if sub = [] then Some 0 else None)"
| "Index (c # cs) sub =
     (if HasPrefix (c # cs) sub then Some 0 else map_option Suc (Index cs sub))"

text \<open>\<open>strings.Split(s, sep)\<close> for a separator of one byte, which is what every call site
  passes. The result is never empty.\<close>

fun Split :: "string \<Rightarrow> char \<Rightarrow> string list" where
  "Split [] sep = [[]]"
| "Split (c # cs) sep =
     (if c = sep then [] # Split cs sep
      else (case Split cs sep of [] \<Rightarrow> [[c]] | w # ws \<Rightarrow> (c # w) # ws))"

text \<open>\<open>strings.SplitN(s, sep, n)\<close> for a separator of one byte and \<open>n \<ge> 0\<close>: at most \<open>n\<close>
  pieces, the last one the unsplit rest.\<close>

fun SplitN :: "string \<Rightarrow> char \<Rightarrow> nat \<Rightarrow> string list" where
  "SplitN s sep 0 = []"
| "SplitN s sep (Suc 0) = [s]"
| "SplitN [] sep (Suc (Suc n)) = [[]]"
| "SplitN (c # cs) sep (Suc (Suc n)) =
     (if c = sep then [] # SplitN cs sep (Suc n)
      else (case SplitN cs sep (Suc (Suc n)) of [] \<Rightarrow> [[c]] | w # ws \<Rightarrow> (c # w) # ws))"

text \<open>
  \<open>strings.Fields\<close>: the maximal runs of bytes between white-space runes. The library walks
  the string rune by rune; the walk below goes byte by byte, which finds the same white-space
  runes, because the encoding of a white-space rune starts with a byte that is not a
  continuation byte and so never lies inside the encoding of another rune.
\<close>

function fieldsFrom :: "string \<Rightarrow> string \<Rightarrow> string list" where
  "fieldsFrom cur s =
    (if s = [] then (if cur = [] then [] else [rev cur])
     else if runeWidth spaceRunes s \<noteq> 0
     then (if cur = [] then fieldsFrom [] (drop (runeWidth spaceRunes s) s)
           else rev cur # fieldsFrom [] (drop (runeWidth spaceRunes s) s))
     else fieldsFrom (hd s # cur) (tl s))"
  by pat_completeness auto
termination
  by (relation "measure (\<lambda>(cur, s). length s)") auto

declare fieldsFrom.simps [simp del]

definition Fields :: "string \<Rightarrow> string list" where
  "Fields s = fieldsFrom [] s"

text \<open>
  \<open>strings.ToUpper\<close>. On a string of ASCII bytes the letters a to z are mapped to A to Z. On
  any other string the library applies \<open>unicode.ToUpper\<close> to every rune; this mapping is the
  parameter \<open>unicodeUpper\<close>.
\<close>

definition toUpperChar :: "char \<Rightarrow> char" where
  "toUpperChar c =
    (case map_of (zip ''abcdefghijklmnopqrstuvwxyz'' ''ABCDEFGHIJKLMNOPQRSTUVWXYZ'') c of
       Some u \<Rightarrow> u
     | None \<Rightarrow> c)"

definition ToUpper :: "(string \<Rightarrow> string) \<Rightarrow> string \<Rightarrow> string" where
  "ToUpper unicodeUpper s = (if list_all isASCII s then map toUpperChar s else unicodeUpper s)"

definition isDigit :: "char \<Rightarrow> bool" where
  "isDigit c = ((48::nat) \<le> of_char c \<and> of_char c \<le> (57::nat))"

definition digitsVal :: "string \<Rightarrow> int" where
  "digitsVal ds = foldl (\<lambda>a c. 10 * a + (int (of_char c) - 48)) 0 ds"

text \<open>\<open>strconv.Atoi\<close>: an optional sign, then one or more decimal digits, the value within
  the range of a 64-bit \<open>int\<close>; \<open>None\<close> for the error result.\<close>

definition Atoi :: "string \<Rightarrow> int option" where
  "Atoi s =
    (let neg = (s \<noteq> [] \<and> hd s = CHR ''-'');
         ds = (if s \<noteq> [] \<and> (hd s = CHR ''-'' \<or> hd s = CHR ''+'') then tl s else s)
     in if ds = [] \<or> \<not> list_all isDigit ds then None
        else let v = (if neg then - digitsVal ds else digitsVal ds)
             in if v < - (2 ^ 63) \<or> 2 ^ 63 \<le> v then None else Some v)"

text \<open>\<open>bufio.Reader.ReadString('\n')\<close> on the bytes still to come: the line with its
  delimiter and the rest, or \<open>None\<close> when the input ends before a delimiter (the read fails
  and everything is consumed).\<close>

definition ReadString :: "string \<Rightarrow> (string \<times> string) option" where
  "ReadString buf =
    (if LF \<in> set buf
     then Some (takeWhile (\<lambda>c. c \<noteq> LF) buf @ [LF], tl (dropWhile (\<lambda>c. c \<noteq> LF) buf))
     else None)"

text \<open>
  Go panics when an index or a slice bound is out of range. Every index and slice expression
  of the parser is modelled by a function that returns the panic as a value, so that a
  panic of the source is a result \<open>Inl\<close> of the model.
\<close>

datatype panic = IndexOutOfRange | SliceBoundsOutOfRange

definition bindP :: "panic + 'a \<Rightarrow> ('a \<Rightarrow> panic + 'b) \<Rightarrow> panic + 'b" where
  "bindP m f = (case m of Inl e \<Rightarrow> Inl e | Inr x \<Rightarrow> f x)"

text \<open>\<open>xs[i]\<close>, \<open>s[i:]\<close>, \<open>s[:j]\<close> and \<open>s[i:j]\<close>.\<close>

definition indexAt :: "'a list \<Rightarrow> nat \<Rightarrow> panic + 'a" where
  "indexAt xs i = (if i < length xs then Inr (xs ! i) else Inl IndexOutOfRange)"

definition sliceFrom :: "'a list \<Rightarrow> nat \<Rightarrow> panic + 'a list" where
  "sliceFrom s i = (if i \<le> length s then Inr (drop i s) else Inl SliceBoundsOutOfRange)"

definition sliceTo :: "'a list \<Rightarrow> nat \<Rightarrow> panic + 'a list" where
  "sliceTo s j = (if j \<le> length s then Inr (take j s) else Inl SliceBoundsOutOfRange)"

definition slice :: "'a list \<Rightarrow> nat \<Rightarrow> nat \<Rightarrow> panic + 'a list" where
  "slice s i j =
    (if i \<le> j \<and> j \<le> length s then Inr (take (j - i) (drop i s))
     else Inl SliceBoundsOutOfRange)"

text \<open>\<open>xs[i].field = v\<close>: an update of the element at an index.\<close>

definition updateAt :: "'a list \<Rightarrow> nat \<Rightarrow> ('a \<Rightarrow> 'a) \<Rightarrow> panic + 'a list" where
  "updateAt xs i f = (if i < length xs then Inr (xs[i := f (xs ! i)]) else Inl IndexOutOfRange)"


section \<open>Data model (internal/models/device.go)\<close>

text \<open>
  A \<open>time.Time\<close> is a point on one time line, counted in nanoseconds from the zero value
  \<open>time.Time{}\<close>; \<open>IsZero\<close> is equality with 0, \<open>After\<close> and \<open>Before\<close> are \<open>>\<close> and \<open><\<close>,
  \<open>t.Add(d)\<close> is \<open>t + d\<close>. A \<open>time.Duration\<close> is a number of nanoseconds. A \<open>float64\<close> is
  kept as its IEEE-754 bit pattern; no arithmetic is done on it.
\<close>

type_synonym Time = int
type_synonym Duration = int
type_synonym float64 = "64 word"

record Protocol =
  Type :: string
  Port :: int
  URL :: string
  Available :: bool
  DetectedAt :: Time

record RTSPStreamInfo =
  rs_URL :: string
  rs_Codec :: string
  rs_Resolution :: string
  rs_FPS :: float64
  rs_Bitrate :: int
  rs_AudioCodec :: string
  rs_Channels :: int
  rs_Available :: bool
  rs_CheckedAt :: Time

record Device =
  IP :: string
  MAC :: string
  Hostname :: string
  Manufacturer :: string
  Model :: string
  Protocols :: "Protocol list"
  RTSPStreams :: "RTSPStreamInfo list"
  DiscoveredAt :: Time
  LastSeen :: Time

section \<open>Orchestrator merge (internal/scanner/detector.go)\<close>

text \<open>The map key of a protocol in \<open>mergeDevices\<close>: \<open>fmt.Sprintf("%s:%d", p.Type, p.Port)\<close>.\<close>

definition protocolKey :: "Protocol \<Rightarrow> string" where
  "protocolKey p = Type p @ '':'' @ itoa (Port p)"

text \<open>
  \<open>Detector.mergeDevices(existing, new)\<close>. The source mutates \<open>existing\<close> in place; the model
  returns the updated device. \<open>now\<close> is the reading of \<open>time.Now()\<close>. The protocol map is
  filled from \<open>existing.Protocols\<close> only and is not extended while the protocols of \<open>new\<close>
  are appended.
\<close>

definition mergeDevices :: "Time \<Rightarrow> Device \<Rightarrow> Device \<Rightarrow> Device" where
  "mergeDevices now existing new =
    (let protocolMap = fold (\<lambda>p m. m(protocolKey p \<mapsto> p)) (Protocols existing) Map.empty;
         e1 = existing\<lparr>Protocols :=
                fold (\<lambda>p ps. if protocolMap (protocolKey p) = None then ps @ [p] else ps)
                     (Protocols new) (Protocols existing)\<rparr>;
         e2 = (if Manufacturer e1 = [] \<and> Manufacturer new \<noteq> []
               then e1\<lparr>Manufacturer := Manufacturer new\<rparr> else e1);
         e3 = (if Model e2 = [] \<and> Model new \<noteq> [] then e2\<lparr>Model := Model new\<rparr> else e2);
         e4 = (if Hostname e3 = [] \<and> Hostname new \<noteq> []
               then e3\<lparr>Hostname := Hostname new\<rparr> else e3);
         e5 = (if MAC e4 = [] \<and> MAC new \<noteq> [] then e4\<lparr>MAC := MAC new\<rparr> else e4)
     in if DiscoveredAt new > DiscoveredAt existing then e5\<lparr>LastSeen := now\<rparr> else e5)"

text \<open>
  The closure \<open>mergeDevice\<close> of \<open>Detector.Scan\<close>, on the map \<open>devicesMap\<close> keyed by IP;
  a nil device is \<open>None\<close>.
\<close>

definition mergeDevice :: "Time \<Rightarrow> (string \<rightharpoonup> Device) \<Rightarrow> Device option \<Rightarrow> (string \<rightharpoonup> Device)" where
  "mergeDevice now devicesMap device =
    (case device of
       None \<Rightarrow> devicesMap
     | Some dev \<Rightarrow>
        (case devicesMap (IP dev) of
           Some existing \<Rightarrow> devicesMap(IP dev \<mapsto> mergeDevices now existing dev)
         | None \<Rightarrow> devicesMap(IP dev \<mapsto> dev)))"

section \<open>Device registry\<close>

record CachedDevice =
  Device :: Device
  ExpiresAt :: Time

text \<open>
  The cache's map \<open>devices\<close> is kept as an association list with distinct keys, since
  \<open>GetFromCache\<close> iterates over it. Go leaves the iteration order of a map unspecified; the
  model iterates in the list's order, and the theorems speak about the set of returned devices.
\<close>

record Cache =
  cache_devices :: "(string \<times> CachedDevice) list"
  defaultTTL :: Duration
  lastScan :: Time
  scanResults :: "Device list"

record DeviceRegistry =
  devices :: "string \<rightharpoonup> Device"
  cache :: Cache

definition NewDeviceRegistry :: "Duration \<Rightarrow> DeviceRegistry" where
  "NewDeviceRegistry cacheTTL =
    \<lparr>devices = Map.empty,
     cache = \<lparr>cache_devices = [], defaultTTL = cacheTTL, lastScan = 0, scanResults = []\<rparr>\<rparr>"

text \<open>\<open>DeviceRegistry.AddDevice\<close>; \<open>now\<close> is the reading of \<open>time.Now()\<close>.\<close>

definition AddDevice :: "Time \<Rightarrow> DeviceRegistry \<Rightarrow> Device \<Rightarrow> DeviceRegistry" where
  "AddDevice now r device =
    (case devices r (IP device) of
       Some existing \<Rightarrow>
         r\<lparr>devices := (devices r)(IP device \<mapsto>
              existing\<lparr>MAC := MAC device, Hostname := Hostname device,
                       Manufacturer := Manufacturer device, Model := Model device,
                       Protocols := Protocols device, RTSPStreams := RTSPStreams device,
                       LastSeen := now\<rparr>)\<rparr>
     | None \<Rightarrow>
         r\<lparr>devices := (devices r)(IP device \<mapsto> device\<lparr>DiscoveredAt := now, LastSeen := now\<rparr>)\<rparr>)"

definition GetDevice :: "DeviceRegistry \<Rightarrow> string \<Rightarrow> Device option" where
  "GetDevice r ip = devices r ip"

text \<open>
  \<open>DeviceRegistry.SaveToCache\<close>, called at time \<open>now\<close>. The source stores the pointers it
  is given; the model stores the devices as they are at the time of the call, which is what a
  read finds as long as no saved device is written to between the save and the read.
\<close>

definition SaveToCache :: "Time \<Rightarrow> DeviceRegistry \<Rightarrow> Device list \<Rightarrow> DeviceRegistry" where
  "SaveToCache now r devs =
    (let expiresAt = now + defaultTTL (cache r)
     in r\<lparr>cache := (cache r)\<lparr>
          cache_devices :=
            fold (\<lambda>d al. AList.update (IP d) \<lparr>Device = d, ExpiresAt = expiresAt\<rparr> al) devs [],
          lastScan := now,
          scanResults := devs\<rparr>\<rparr>)"

text \<open>
  \<open>DeviceRegistry.GetFromCache\<close>, called at time \<open>now\<close>. The Go result \<open>(nil, false)\<close> is
  \<open>None\<close>, the result \<open>(validDevices, true)\<close> is \<open>Some validDevices\<close>.
\<close>

definition GetFromCache :: "Time \<Rightarrow> DeviceRegistry \<Rightarrow> Device list option" where
  "GetFromCache now r =
    (if lastScan (cache r) = 0 \<or> now > lastScan (cache r) + defaultTTL (cache r) then None
     else
       let validDevices =
             map Device (filter (\<lambda>cached. now < ExpiresAt cached)
                                (map snd (cache_devices (cache r))))
       in if length validDevices = 0 then None else Some validDevices)"

section \<open>Network utilities (pkg/utils/network.go)\<close>

text \<open>
  A \<open>net.IP\<close> and a \<open>net.IPMask\<close> are byte slices. Only IPv4 is modelled: addresses and masks
  of four bytes. \<open>net.ParseCIDR\<close> also accepts IPv6 prefixes, which are outside the model.
\<close>

type_synonym byte = "8 word"

record IPNet =
  net_IP :: "byte list"
  net_Mask :: "byte list"

datatype net_error = NoInterfaces | InvalidCIDR string

text \<open>The decimal fields of a dotted IPv4 address, as \<open>netip.ParseAddr\<close> reads them: one to
  three digits each, no leading zero, at most 255, exactly four fields.\<close>

definition parseOctet :: "string \<Rightarrow> byte option" where
  "parseOctet f =
    (if f = [] \<or> \<not> list_all isDigit f \<or> (length f > 1 \<and> hd f = CHR ''0'') \<or> length f > 3
        \<or> digitsVal f > 255
     then None else Some (word_of_int (digitsVal f)))"

definition parseIPv4 :: "string \<Rightarrow> byte list option" where
  "parseIPv4 s =
    (let fields = Split s (CHR ''.'')
     in if length fields \<noteq> 4 \<or> list_ex (\<lambda>f. parseOctet f = None) fields then None
        else Some (map (\<lambda>f. the (parseOctet f)) fields))"

text \<open>\<open>net.CIDRMask(ones, 32)\<close>.\<close>

definition CIDRMask :: "nat \<Rightarrow> byte list" where
  "CIDRMask ones =
    map (\<lambda>i. if 8 * (i + 1) \<le> ones then 255
              else if ones \<le> 8 * i then 0
              else NOT (mask (8 - (ones - 8 * i))))
        [0, 1, 2, 3]"

text \<open>\<open>IP.Mask\<close> for an address and a mask of the same length.\<close>

definition Mask :: "byte list \<Rightarrow> byte list \<Rightarrow> byte list" where
  "Mask ip m = map (\<lambda>(a, b). a AND b) (zip ip m)"

text \<open>\<open>net.ParseCIDR\<close> on an IPv4 prefix: the address up to the first slash, the prefix length
  in decimal digits (at most 32) after it. The \<open>IPNet\<close> carries the masked address.\<close>

definition ParseCIDR :: "string \<Rightarrow> IPNet option" where
  "ParseCIDR s =
    (case Index s ''/'' of
       None \<Rightarrow> None
     | Some i \<Rightarrow>
        (let addr = take i s; m = drop (i + 1) s
         in case parseIPv4 addr of
              None \<Rightarrow> None
            | Some ip \<Rightarrow>
               if m = [] \<or> \<not> list_all isDigit m \<or> digitsVal m > 32 then None
               else (let msk = CIDRMask (nat (digitsVal m))
                     in Some \<lparr>net_IP = Mask ip msk, net_Mask = msk\<rparr>)))"

text \<open>\<open>ParseSubnet\<close>. \<open>defaultSubnet\<close> is the result of \<open>GetDefaultSubnet()\<close>, which reads the
  machine's interfaces: \<open>None\<close> when it returns an error.\<close>

definition ParseSubnet :: "string option \<Rightarrow> string \<Rightarrow> net_error + IPNet" where
  "ParseSubnet defaultSubnet subnet0 =
    (case (if subnet0 = [] then defaultSubnet else Some subnet0) of
       None \<Rightarrow> Inl NoInterfaces
     | Some subnet \<Rightarrow>
        (case ParseCIDR subnet of
           Some ipNet \<Rightarrow> Inr ipNet
         | None \<Rightarrow>
            if Contains subnet ''/'' then Inl (InvalidCIDR subnet)
            else (case ParseCIDR (subnet @ ''/24'') of
                    Some ipNet \<Rightarrow> Inr ipNet
                  | None \<Rightarrow> Inl (InvalidCIDR (subnet @ ''/24'')))))"

text \<open>\<open>IPNet.Contains\<close> for an address of the network's length.\<close>

definition ContainsIP :: "IPNet \<Rightarrow> byte list \<Rightarrow> bool" where
  "ContainsIP n ip =
    (length ip = length (net_IP n) \<and> Mask (net_IP n) (net_Mask n) = Mask ip (net_Mask n))"

text \<open>\<open>incrementIP\<close>: add one to the last byte and carry to the left while a byte wraps to 0.
  The address is given in reverse in the helper.\<close>

fun incrementRev :: "byte list \<Rightarrow> byte list" where
  "incrementRev [] = []"
| "incrementRev (b # bs) = (if b + 1 = 0 then (b + 1) # incrementRev bs else (b + 1) # bs)"

definition incrementIP :: "byte list \<Rightarrow> byte list" where
  "incrementIP ip = rev (incrementRev (rev ip))"

text \<open>\<open>IP.String()\<close> of a four-byte address.\<close>

definition IPString :: "byte list \<Rightarrow> string" where
  "IPString ip = utoa (unat (ip ! 0)) @ ''.'' @ utoa (unat (ip ! 1)) @ ''.''
                 @ utoa (unat (ip ! 2)) @ ''.'' @ utoa (unat (ip ! 3))"

text \<open>The loop of \<open>GetSubnetHosts\<close>. It need not terminate, so it is a partial function:
  \<open>None\<close> is the loop that never ends.\<close>

partial_function (option) hostsLoop ::
  "IPNet \<Rightarrow> byte list \<Rightarrow> byte list \<Rightarrow> string list \<Rightarrow> string list option" where
  "hostsLoop ipNet broadcast ip hosts =
    (if ContainsIP ipNet ip
     then hostsLoop ipNet broadcast (incrementIP ip)
            (if ip \<noteq> net_IP ipNet \<and> ip \<noteq> broadcast then hosts @ [IPString ip] else hosts)
     else Some hosts)"

declare hostsLoop.simps [code]

text \<open>\<open>GetSubnetHosts\<close>: \<open>None\<close> when the call does not return, \<open>Some (Inl e)\<close> for an error,
  \<open>Some (Inr hosts)\<close> for the list.\<close>

definition GetSubnetHosts :: "string option \<Rightarrow> string \<Rightarrow> (net_error + string list) option" where
  "GetSubnetHosts defaultSubnet subnet =
    (case ParseSubnet defaultSubnet subnet of
       Inl err \<Rightarrow> Some (Inl err)
     | Inr ipNet \<Rightarrow>
        (let ip = Mask (net_IP ipNet) (net_Mask ipNet);
             broadcast = map (\<lambda>(a, m). a OR NOT m) (zip ip (net_Mask ipNet))
         in map_option Inr (hostsLoop ipNet broadcast (Mask ip (net_Mask ipNet)) [])))"

section \<open>Connections and the outside world\<close>

text \<open>
  The TCP connection of a client: the requests written so far (one entry per successful
  \<open>Write\<close>), the bytes the peer delivers to the reader, and whether \<open>Write\<close> and
  \<open>SetDeadline\<close> return an error. A read that finds the input exhausted fails, as a read
  running into EOF or into the deadline does.
\<close>

record Conn =
  written :: "string list"
  incoming :: string
  writeFails :: bool
  deadlineFails :: bool

text \<open>The parts of a parsed \<open>url.URL\<close> that the client reads.\<close>

record ParsedURL =
  u_Hostname :: string
  u_Port :: string
  u_Path :: string

text \<open>
  What the program takes from outside the repository: \<open>url.Parse\<close>, \<open>net.DialTimeout\<close>
  (address and timeout to a connection, \<open>None\<close> on error), \<open>net.LookupAddr\<close> (\<open>None\<close> on
  error), \<open>md5.Sum\<close> and \<open>base64.StdEncoding.EncodeToString\<close>.
\<close>

record Env =
  url_Parse :: "string \<Rightarrow> ParsedURL option"
  net_DialTimeout :: "string \<Rightarrow> Duration \<Rightarrow> Conn option"
  net_LookupAddr :: "string \<Rightarrow> string list option"
  md5_Sum :: "string \<Rightarrow> 8 word list"
  base64_EncodeToString :: "string \<Rightarrow> string"


section \<open>RTSP detector (internal/protocols/rtsp.go)\<close>

datatype detect_error = DetectConnectFailed | DetectSendFailed | DetectReadFailed
  | InvalidRTSPResponse string

text \<open>
  \<open>RTSPDetector.Detect\<close>; \<open>now\<close> is the reading of \<open>time.Now()\<close>. The error result of
  \<open>SetDeadline\<close> is ignored by the source. After a positive answer the source calls
  \<open>getStreams\<close>, whose outcome only feeds a debug log line: it does not change the result,
  and it returns on every input, each of its reads consuming input or failing.
\<close>

definition Detect :: "Env \<Rightarrow> Time \<Rightarrow> string \<Rightarrow> int \<Rightarrow> Duration \<Rightarrow> Protocol \<times> detect_error option" where
  "Detect env now ip port tmo =
    (let protocol = \<lparr>Type = ''RTSP'', Port = port, URL = [], Available = False,
                      DetectedAt = now\<rparr>;
         address = ip @ '':'' @ itoa port
     in case net_DialTimeout env address tmo of
          None \<Rightarrow> (protocol, Some DetectConnectFailed)
        | Some cn \<Rightarrow>
           if writeFails cn then (protocol, Some DetectSendFailed)
           else (case ReadString (incoming cn) of
                   None \<Rightarrow> (protocol, Some DetectReadFailed)
                 | Some (response, rest) \<Rightarrow>
                    if \<not> Contains response ''RTSP/1.0''
                    then (protocol, Some (InvalidRTSPResponse response))
                    else if Contains response ''200'' \<or> Contains response ''401''
                    then (protocol\<lparr>Available := True,
                                    URL := ''rtsp://'' @ ip @ '':'' @ itoa port\<rparr>, None)
                    else (protocol, None)))"

section \<open>TCP sweep (NetworkScanner)\<close>






section \<open>RTSP session client\<close>

text \<open>The errors that the client returns, and the one panic it can raise
  (\<open>PanicMakeSliceLen\<close>), which ends the call like an error.\<close>

datatype rtsp_error =
    InvalidURL | ConnectFailed | SetDeadlineFailed | SendFailed
  | ReadStatusLineFailed | InvalidStatusLine string | InvalidStatusCode
  | ReadHeaderFailed | ReadBodyFailed | PanicMakeSliceLen

record Response =
  StatusCode :: int
  StatusText :: string
  Headers :: "string \<rightharpoonup> string"
  Body :: string

text \<open>\<open>cseq\<close> is a Go \<open>int\<close>; it is modelled unbounded (a session of \<open>2 ^ 63\<close> requests is
  out of reach).\<close>

record Client =
  conn :: Conn
  reader :: string
  url :: ParsedURL
  username :: string
  password :: string
  timeout :: Duration
  sessionID :: string
  cseq :: int
  authMethod :: string
  realm :: string
  nonce :: string

text \<open>\<open>net.JoinHostPort\<close>: a host with a colon in it is put in brackets.\<close>

definition JoinHostPort :: "string \<Rightarrow> string \<Rightarrow> string" where
  "JoinHostPort host port =
    (if CHR '':'' \<in> set host then ''['' @ host @ '']:'' @ port else host @ '':'' @ port)"

definition NewClient ::
  "Env \<Rightarrow> string \<Rightarrow> string \<Rightarrow> string \<Rightarrow> Duration \<Rightarrow> rtsp_error + Client" where
  "NewClient env rtspURL user pass tmo =
    (case url_Parse env rtspURL of
       None \<Rightarrow> Inl InvalidURL
     | Some parsedURL \<Rightarrow>
        (let port = (if u_Port parsedURL = [] then ''554'' else u_Port parsedURL);
             address = JoinHostPort (u_Hostname parsedURL) port
         in case net_DialTimeout env address tmo of
              None \<Rightarrow> Inl ConnectFailed
            | Some cn \<Rightarrow>
               (let client = \<lparr>conn = cn, reader = incoming cn, url = parsedURL,
                               username = user, password = pass, timeout = tmo,
                               sessionID = [], cseq = 1, authMethod = [], realm = [],
                               nonce = []\<rparr>
                in if deadlineFails cn then Inl SetDeadlineFailed else Inr client)))"

text \<open>\<open>fmt.Sprintf("%x", hash)\<close> on a byte array: two lower-case hexadecimal digits per byte.\<close>

definition hexByte :: "8 word \<Rightarrow> string" where
  "hexByte b = [''0123456789abcdef'' ! (unat b div 16), ''0123456789abcdef'' ! (unat b mod 16)]"

definition md5Hash :: "Env \<Rightarrow> string \<Rightarrow> string" where
  "md5Hash env data = concat (map hexByte (md5_Sum env data))"

text \<open>The double quote, written by its code.\<close>

definition dq :: string where "dq = [CHR 0x22]"

definition buildAuthHeader :: "Env \<Rightarrow> Client \<Rightarrow> string \<Rightarrow> string \<Rightarrow> string" where
  "buildAuthHeader env c method path =
    (if authMethod c = ''Basic'' then
       (let auth = username c @ '':'' @ password c;
            encoded = base64_EncodeToString env auth
        in ''Basic '' @ encoded)
     else if authMethod c = ''Digest'' then
       (let ha1 = md5Hash env (username c @ '':'' @ realm c @ '':'' @ password c);
            ha2 = md5Hash env (method @ '':'' @ path);
            response = md5Hash env (ha1 @ '':'' @ nonce c @ '':'' @ ha2)
        in ''Digest username='' @ dq @ username c @ dq @ '', realm='' @ dq @ realm c @ dq
           @ '', nonce='' @ dq @ nonce c @ dq @ '', uri='' @ dq @ path @ dq
           @ '', response='' @ dq @ response @ dq)
     else [])"

text \<open>The header loop of \<open>readResponse\<close>: the headers read and the rest of the input, or
  \<open>None\<close> when a read fails.\<close>

function readHeaders :: "string \<Rightarrow> (string \<rightharpoonup> string) \<Rightarrow> (string \<rightharpoonup> string) option \<times> string" where
  "readHeaders buf hs =
    (case ReadString buf of
       None \<Rightarrow> (None, [])
     | Some (l, rest) \<Rightarrow>
        (let line = TrimSpace l
         in if line = [] then (Some hs, rest)
            else (let parts = SplitN line (CHR '':'') 2
                  in if length parts = 2
                     then readHeaders rest (hs(TrimSpace (parts ! 0) \<mapsto> TrimSpace (parts ! 1)))
                     else readHeaders rest hs)))"
  by pat_completeness auto
termination
proof (relation "measure (\<lambda>(buf, hs). length buf)")
  show "wf (measure (\<lambda>(buf, hs). length buf))" by simp
next
  fix buf :: string and hs :: "string \<rightharpoonup> string" and x2 x y xa xb
  assume r: "ReadString buf = Some x2" "(x, y) = x2"
  have "length (dropWhile (\<lambda>c. c \<noteq> LF) buf) \<le> length buf"
    by (rule length_dropWhile_le)
  moreover have "buf \<noteq> []" using r by (auto simp: ReadString_def split: if_splits)
  ultimately have "length y < length buf"
    using r by (cases buf) (auto simp: ReadString_def split: if_splits)
  then show "((y, hs(TrimSpace (xb ! 0) \<mapsto> TrimSpace (xb ! 1))), buf, hs)
               \<in> measure (\<lambda>(buf, hs). length buf)" by simp
next
  fix buf :: string and hs :: "string \<rightharpoonup> string" and x2 x y
  assume r: "ReadString buf = Some x2" "(x, y) = x2"
  have "length (dropWhile (\<lambda>c. c \<noteq> LF) buf) \<le> length buf"
    by (rule length_dropWhile_le)
  moreover have "buf \<noteq> []" using r by (auto simp: ReadString_def split: if_splits)
  ultimately have "length y < length buf"
    using r by (cases buf) (auto simp: ReadString_def split: if_splits)
  then show "((y, hs), buf, hs) \<in> measure (\<lambda>(buf, hs). length buf)" by simp
qed

declare readHeaders.simps [simp del]

text \<open>The largest length that \<open>make([]byte, n)\<close> accepts on a 64-bit platform (the
  runtime's \<open>maxAlloc\<close>); above it \<open>make\<close> panics. Running out of memory below this bound
  is not modelled.\<close>

definition maxAlloc :: int where
  "maxAlloc = 2 ^ 48"

text \<open>\<open>Client.readResponse\<close>, on the bytes the reader still delivers: the result and the
  bytes left.\<close>

definition readResponse :: "string \<Rightarrow> (rtsp_error + Response) \<times> string" where
  "readResponse buf =
    (case ReadString buf of
       None \<Rightarrow> (Inl ReadStatusLineFailed, [])
     | Some (l, rest) \<Rightarrow>
        (let statusLine = TrimSpace l;
             parts = SplitN statusLine (CHR '' '') 3
         in if length parts < 3 then (Inl (InvalidStatusLine statusLine), rest)
            else (case Atoi (parts ! 1) of
                    None \<Rightarrow> (Inl InvalidStatusCode, rest)
                  | Some statusCode \<Rightarrow>
                     (case readHeaders rest Map.empty of
                        (None, rest1) \<Rightarrow> (Inl ReadHeaderFailed, rest1)
                      | (Some hs, rest1) \<Rightarrow>
                         (let response = \<lparr>StatusCode = statusCode, StatusText = parts ! 2,
                                           Headers = hs, Body = []\<rparr>
                          in case hs ''Content-Length'' of
                               None \<Rightarrow> (Inr response, rest1)
                             | Some contentLengthStr \<Rightarrow>
                                (case Atoi contentLengthStr of
                                   None \<Rightarrow> (Inr response, rest1)
                                 | Some contentLength \<Rightarrow>
                                    if contentLength > 0
                                    then (if contentLength > maxAlloc
                                          then (Inl PanicMakeSliceLen, rest1)
                                          else if nat contentLength \<le> length rest1
                                          then (Inr (response\<lparr>Body := take (nat contentLength) rest1\<rparr>),
                                                drop (nat contentLength) rest1)
                                          else (Inl ReadBodyFailed, []))
                                    else (Inr response, rest1)))))))"

text \<open>\<open>Client.sendRequest\<close>. The headers are a Go map; every caller passes at most one
  entry, so the association list's order is the only iteration order.\<close>

definition sendRequest ::
  "Env \<Rightarrow> Client \<Rightarrow> string \<Rightarrow> string \<Rightarrow> (string \<times> string) list \<Rightarrow> (rtsp_error + Response) \<times> Client" where
  "sendRequest env c method path headers =
    (let c1 = c\<lparr>cseq := cseq c + 1\<rparr>;
         request = method @ '' '' @ path @ '' RTSP/1.0'' @ CRLF
                   @ ''CSeq: '' @ itoa (cseq c1) @ CRLF
                   @ concat (map (\<lambda>(key, value). key @ '': '' @ value @ CRLF) headers)
                   @ ''User-Agent: Local-video-server/1.0'' @ CRLF
                   @ (if authMethod c1 \<noteq> [] \<and> username c1 \<noteq> [] \<and> password c1 \<noteq> []
                      then (let authHeader = buildAuthHeader env c1 method path
                            in if authHeader \<noteq> [] then ''Authorization: '' @ authHeader @ CRLF
                               else [])
                      else [])
                   @ CRLF
     in if writeFails (conn c1) then (Inl SendFailed, c1)
        else (let c2 = c1\<lparr>conn := (conn c1)\<lparr>written := written (conn c1) @ [request]\<rparr>\<rparr>
              in if deadlineFails (conn c2) then (Inl SetDeadlineFailed, c2)
                 else (case readResponse (reader c2) of
                         (res, rest) \<Rightarrow> (res, c2\<lparr>reader := rest\<rparr>))))"

definition Options :: "Env \<Rightarrow> Client \<Rightarrow> (rtsp_error + Response) \<times> Client" where
  "Options env c = sendRequest env c ''OPTIONS'' ''*'' []"

text \<open>\<open>strings.Trim(s, "\"")\<close>: strip the double quotes at both ends.\<close>

definition TrimQuotes :: "string \<Rightarrow> string" where
  "TrimQuotes s = rev (dropWhile (\<lambda>c. c = CHR 0x22) (rev (dropWhile (\<lambda>c. c = CHR 0x22) s)))"

definition parseAuthHeader :: "Client \<Rightarrow> string \<Rightarrow> Client" where
  "parseAuthHeader c header =
    (if HasPrefix header ''Basic'' then
       (let c1 = c\<lparr>authMethod := ''Basic''\<rparr>
        in case Index header ''realm='' of
             None \<Rightarrow> c1
           | Some idx \<Rightarrow>
              (let realm0 = drop (idx + 6) header;
                   realm1 = (case Index realm0 '','' of None \<Rightarrow> realm0
                             | Some endIdx \<Rightarrow> take endIdx realm0)
               in c1\<lparr>realm := TrimQuotes realm1\<rparr>))
     else if HasPrefix header ''Digest'' then
       fold (\<lambda>p c'. let part = TrimSpace p
                     in if HasPrefix part ''realm='' then c'\<lparr>realm := TrimQuotes (drop 6 part)\<rparr>
                        else if HasPrefix part ''nonce='' then c'\<lparr>nonce := TrimQuotes (drop 6 part)\<rparr>
                        else c')
            (Split header (CHR '','')) (c\<lparr>authMethod := ''Digest''\<rparr>)
     else c)"

definition Describe :: "Env \<Rightarrow> Client \<Rightarrow> (rtsp_error + Response) \<times> Client" where
  "Describe env c =
    (let path = (if u_Path (url c) = [] then ''/'' else u_Path (url c));
         headers = [(''Accept'', ''application/sdp'')]
     in case sendRequest env c ''DESCRIBE'' path headers of
          (Inl err, c1) \<Rightarrow> (Inl err, c1)
        | (Inr response, c1) \<Rightarrow>
            if StatusCode response = 401
            then (let authHeader = (case Headers response ''WWW-Authenticate'' of
                                      None \<Rightarrow> [] | Some h \<Rightarrow> h)
                  in if authHeader \<noteq> []
                     then sendRequest env (parseAuthHeader c1 authHeader) ''DESCRIBE'' path headers
                     else (Inr response, c1))
            else (Inr response, c1))"

definition Setup :: "Env \<Rightarrow> Client \<Rightarrow> string \<Rightarrow> (rtsp_error + Response) \<times> Client" where
  "Setup env c transport =
    (let path = (if u_Path (url c) = [] then ''/'' else u_Path (url c));
         headers = [(''Transport'', transport)]
     in case sendRequest env c ''SETUP'' path headers of
          (Inl err, c1) \<Rightarrow> (Inl err, c1)
        | (Inr response, c1) \<Rightarrow>
            (case Headers response ''Session'' of
               None \<Rightarrow> (Inr response, c1)
             | Some sid \<Rightarrow>
                (let parts = Split sid (CHR '';'')
                 in (Inr response, c1\<lparr>sessionID := TrimSpace (parts ! 0)\<rparr>))))"

definition Play :: "Env \<Rightarrow> Client \<Rightarrow> (rtsp_error + Response) \<times> Client" where
  "Play env c =
    (let path = (if u_Path (url c) = [] then ''/'' else u_Path (url c));
         headers = (if sessionID c \<noteq> [] then [(''Session'', sessionID c)] else [])
     in sendRequest env c ''PLAY'' path headers)"

section \<open>SDP parser (internal/rtsp/parser.go)\<close>

record VideoTrack =
  vt_Codec :: string
  vt_Resolution :: string
  vt_FPS :: float64
  vt_Bitrate :: int
  vt_Profile :: string
  vt_Level :: string

record AudioTrack =
  at_Codec :: string
  at_Channels :: int
  at_SampleRate :: int
  at_Bitrate :: int

record StreamInfo =
  si_URL :: string
  si_Codec :: string
  si_Resolution :: string
  si_FPS :: float64
  si_Bitrate :: int
  si_AudioCodec :: string
  si_Channels :: int
  si_Available :: bool
  VideoTracks :: "VideoTrack list"
  AudioTracks :: "AudioTrack list"

text \<open>Of a \<open>MediaDescription\<close> the parser sets and reads the field \<open>Type\<close> only.\<close>

record MediaDescription =
  md_Type :: string

definition emptyVideoTrack :: VideoTrack where
  "emptyVideoTrack = \<lparr>vt_Codec = [], vt_Resolution = [], vt_FPS = 0, vt_Bitrate = 0,
                       vt_Profile = [], vt_Level = []\<rparr>"

definition emptyAudioTrack :: AudioTrack where
  "emptyAudioTrack = \<lparr>at_Codec = [], at_Channels = 0, at_SampleRate = 0, at_Bitrate = 0\<rparr>"

definition emptyStreamInfo :: StreamInfo where
  "emptyStreamInfo = \<lparr>si_URL = [], si_Codec = [], si_Resolution = [], si_FPS = 0, si_Bitrate = 0,
                       si_AudioCodec = [], si_Channels = 0, si_Available = False,
                       VideoTracks = [], AudioTracks = []\<rparr>"

text \<open>
  What the parser takes from the Go library and the model leaves open: \<open>strconv.ParseFloat(s,
  64)\<close> (\<open>None\<close> for an error) and the mapping that \<open>strings.ToUpper\<close> applies to a string
  with a non-ASCII byte.
\<close>

record Lib =
  strconv_ParseFloat :: "string \<Rightarrow> float64 option"
  unicode_ToUpper :: "string \<Rightarrow> string"

text \<open>\<open>extractResolutionFromSPS\<close> returns the empty string on every input.\<close>

definition extractResolutionFromSPS :: "string \<Rightarrow> string" where
  "extractResolutionFromSPS sps = []"

definition normalizeCodec :: "Lib \<Rightarrow> string \<Rightarrow> string" where
  "normalizeCodec lib codec0 =
    (let codec = ToUpper (unicode_ToUpper lib) codec0
     in if Contains codec ''H264'' \<or> Contains codec ''H.264'' \<or> codec = ''AVC'' then ''H.264''
        else if Contains codec ''H265'' \<or> Contains codec ''H.265'' \<or> codec = ''HEVC''
        then ''H.265''
        else if Contains codec ''MJPEG'' \<or> Contains codec ''JPEG'' then ''MJPEG''
        else if Contains codec ''MPEG4'' \<or> Contains codec ''MPEG-4'' then ''MPEG-4''
        else codec)"

definition normalizeAudioCodec :: "Lib \<Rightarrow> string \<Rightarrow> string" where
  "normalizeAudioCodec lib codec0 =
    (let codec = ToUpper (unicode_ToUpper lib) codec0
     in if Contains codec ''AAC'' then ''AAC''
        else if Contains codec ''PCM'' then ''PCM''
        else if Contains codec ''PCMU'' \<or> Contains codec ''PCMA'' then ''G.711''
        else if Contains codec ''G722'' then ''G.722''
        else codec)"

text \<open>One round of the loop of \<open>parseFmtpParams\<close>.\<close>

definition parseFmtpPair :: "MediaDescription \<Rightarrow> StreamInfo \<Rightarrow> string \<Rightarrow> panic + StreamInfo" where
  "parseFmtpPair media info pair0 =
    (let pair = TrimSpace pair0
     in case Index pair ''='' of
          None \<Rightarrow> Inr info
        | Some idx \<Rightarrow>
           bindP (sliceTo pair idx) (\<lambda>k.
           bindP (sliceFrom pair (idx + 1)) (\<lambda>v.
             let key = TrimSpace k; value = TrimSpace v
             in if md_Type media = ''video'' \<and> length (VideoTracks info) > 0
                then (let idx = length (VideoTracks info) - 1
                      in if key = ''profile-level-id''
                         then (if length value \<ge> 6
                               then bindP (slice value 0 2) (\<lambda>profile.
                                    bindP (slice value 4 6) (\<lambda>level.
                                    bindP (updateAt (VideoTracks info) idx
                                             (\<lambda>track. track\<lparr>vt_Profile := profile,
                                                              vt_Level := level\<rparr>))
                                          (\<lambda>tracks. Inr (info\<lparr>VideoTracks := tracks\<rparr>))))
                               else Inr info)
                         else if key = ''sprop-parameter-sets''
                         then (let resolution = extractResolutionFromSPS value
                               in if resolution \<noteq> []
                                  then bindP (updateAt (VideoTracks info) idx
                                                (\<lambda>track. track\<lparr>vt_Resolution := resolution\<rparr>))
                                         (\<lambda>tracks. Inr (info\<lparr>VideoTracks := tracks,
                                                                si_Resolution := resolution\<rparr>))
                                  else Inr info)
                         else Inr info)
                else Inr info)))"

fun foldP :: "('s \<Rightarrow> 'a \<Rightarrow> panic + 's) \<Rightarrow> 's \<Rightarrow> 'a list \<Rightarrow> panic + 's" where
  "foldP f s [] = Inr s"
| "foldP f s (x # xs) = bindP (f s x) (\<lambda>s'. foldP f s' xs)"

definition parseFmtpParams :: "string \<Rightarrow> MediaDescription \<Rightarrow> StreamInfo \<Rightarrow> panic + StreamInfo" where
  "parseFmtpParams params media info =
    (let paramPairs = Split params (CHR '';'')
     in foldP (parseFmtpPair media) info paramPairs)"

text \<open>The five blocks of \<open>parseAttribute\<close>, on \<open>attr = line[2:]\<close>, in the order of the
  source.\<close>

definition attr_rtpmap ::
  "Lib \<Rightarrow> string \<Rightarrow> MediaDescription \<Rightarrow> StreamInfo \<Rightarrow> panic + StreamInfo" where
  "attr_rtpmap lib attr media info =
    (if HasPrefix attr ''rtpmap:''
     then bindP (sliceFrom attr 7) (\<lambda>rest.
          let parts = Fields rest
          in if length parts \<ge> 2
             then bindP (indexAt parts 1) (\<lambda>codecInfo.
                  let codecParts = Split codecInfo (CHR ''/'')
                  in bindP (indexAt codecParts 0) (\<lambda>codec.
                     if md_Type media = ''video''
                     then (if length (VideoTracks info) > 0
                           then bindP (updateAt (VideoTracks info) (length (VideoTracks info) - 1)
                                         (\<lambda>track. track\<lparr>vt_Codec := normalizeCodec lib codec\<rparr>))
                                  (\<lambda>tracks. Inr (info\<lparr>VideoTracks := tracks,
                                                         si_Codec := normalizeCodec lib codec\<rparr>))
                           else Inr info)
                     else if md_Type media = ''audio''
                     then (if length (AudioTracks info) > 0
                           then bindP (updateAt (AudioTracks info) (length (AudioTracks info) - 1)
                                         (\<lambda>track. track\<lparr>at_Codec := normalizeAudioCodec lib codec\<rparr>))
                                  (\<lambda>tracks. Inr (info\<lparr>AudioTracks := tracks,
                                                         si_AudioCodec := normalizeAudioCodec lib codec\<rparr>))
                           else Inr info)
                     else Inr info))
             else Inr info)
     else Inr info)"

definition attr_fmtp :: "string \<Rightarrow> MediaDescription \<Rightarrow> StreamInfo \<Rightarrow> panic + StreamInfo" where
  "attr_fmtp attr media info =
    (if HasPrefix attr ''fmtp:''
     then bindP (sliceFrom attr 5) (\<lambda>rest.
          let parts = SplitN rest (CHR '' '') 2
          in if length parts = 2
             then bindP (indexAt parts 1) (\<lambda>params. parseFmtpParams params media info)
             else Inr info)
     else Inr info)"

definition attr_framerate ::
  "Lib \<Rightarrow> string \<Rightarrow> MediaDescription \<Rightarrow> StreamInfo \<Rightarrow> panic + StreamInfo" where
  "attr_framerate lib attr media info =
    (if HasPrefix attr ''framerate:''
     then bindP (sliceFrom attr 10) (\<lambda>rest.
          let fpsStr = TrimSpace rest
          in case strconv_ParseFloat lib fpsStr of
               None \<Rightarrow> Inr info
             | Some fps \<Rightarrow>
                if md_Type media = ''video'' \<and> length (VideoTracks info) > 0
                then bindP (updateAt (VideoTracks info) (length (VideoTracks info) - 1)
                              (\<lambda>track. track\<lparr>vt_FPS := fps\<rparr>))
                       (\<lambda>tracks. Inr (info\<lparr>VideoTracks := tracks, si_FPS := fps\<rparr>))
                else Inr info)
     else Inr info)"

definition attr_xdimensions :: "string \<Rightarrow> MediaDescription \<Rightarrow> StreamInfo \<Rightarrow> panic + StreamInfo" where
  "attr_xdimensions attr media info =
    (if HasPrefix attr ''x-dimensions:''
     then bindP (sliceFrom attr 13) (\<lambda>rest.
          let resolution = TrimSpace rest;
              parts = Split resolution (CHR ''x'')
          in if length parts = 2
             then bindP (indexAt parts 0) (\<lambda>p0.
                  bindP (indexAt parts 1) (\<lambda>p1.
                    case Atoi p0 of
                      None \<Rightarrow> Inr info
                    | Some width \<Rightarrow>
                       (case Atoi p1 of
                          None \<Rightarrow> Inr info
                        | Some height \<Rightarrow>
                           (let resolutionStr = itoa width @ ''x'' @ itoa height
                            in if md_Type media = ''video'' \<and> length (VideoTracks info) > 0
                               then bindP (updateAt (VideoTracks info)
                                             (length (VideoTracks info) - 1)
                                             (\<lambda>track. track\<lparr>vt_Resolution := resolutionStr\<rparr>))
                                      (\<lambda>tracks. Inr (info\<lparr>VideoTracks := tracks,
                                                             si_Resolution := resolutionStr\<rparr>))
                               else Inr info))))
             else Inr info)
     else Inr info)"

definition attr_sprop :: "string \<Rightarrow> MediaDescription \<Rightarrow> StreamInfo \<Rightarrow> panic + StreamInfo" where
  "attr_sprop attr media info =
    (if Contains attr ''sprop-parameter-sets=''
     then (let resolution = extractResolutionFromSPS attr
           in if resolution \<noteq> []
              then (if md_Type media = ''video'' \<and> length (VideoTracks info) > 0
                    then bindP (updateAt (VideoTracks info) (length (VideoTracks info) - 1)
                                  (\<lambda>track. track\<lparr>vt_Resolution := resolution\<rparr>))
                           (\<lambda>tracks. Inr (info\<lparr>VideoTracks := tracks,
                                                  si_Resolution := resolution\<rparr>))
                    else Inr info)
              else Inr info)
     else Inr info)"

definition parseAttribute ::
  "Lib \<Rightarrow> string \<Rightarrow> MediaDescription \<Rightarrow> StreamInfo \<Rightarrow> panic + StreamInfo" where
  "parseAttribute lib line media info =
    bindP (sliceFrom line 2) (\<lambda>attr.
    bindP (attr_rtpmap lib attr media info) (\<lambda>info1.
    bindP (attr_fmtp attr media info1) (\<lambda>info2.
    bindP (attr_framerate lib attr media info2) (\<lambda>info3.
    bindP (attr_xdimensions attr media info3) (\<lambda>info4.
    attr_sprop attr media info4)))))"

text \<open>One round of the loop of \<open>ParseSDP\<close>, on the stream info and the current media
  description (\<open>None\<close> for nil).\<close>

definition parseLine ::
  "Lib \<Rightarrow> StreamInfo \<times> MediaDescription option \<Rightarrow> string
     \<Rightarrow> panic + StreamInfo \<times> MediaDescription option" where
  "parseLine lib st line0 =
    (let info = fst st; currentMedia = snd st; line = TrimSpace line0
     in if line = [] then Inr st
        else if length line < 2 then Inr st
        else bindP (indexAt line 1) (\<lambda>c1.
             if c1 \<noteq> CHR ''='' then Inr st
             else bindP (indexAt line 0) (\<lambda>mediaType.
                  bindP (sliceFrom line 2) (\<lambda>value.
                    if mediaType = CHR ''m''
                    then (let parts = Fields value
                          in if length parts \<ge> 2
                             then bindP (indexAt parts 0) (\<lambda>mt.
                                  if mt = ''video''
                                  then Inr (info\<lparr>VideoTracks := VideoTracks info @ [emptyVideoTrack]\<rparr>,
                                            Some \<lparr>md_Type = mt\<rparr>)
                                  else if mt = ''audio''
                                  then Inr (info\<lparr>AudioTracks := AudioTracks info @ [emptyAudioTrack]\<rparr>,
                                            Some \<lparr>md_Type = mt\<rparr>)
                                  else Inr st)
                             else Inr st)
                    else if mediaType = CHR ''a''
                    then (case currentMedia of
                            None \<Rightarrow> Inr st
                          | Some media \<Rightarrow>
                             bindP (parseAttribute lib line media info)
                                   (\<lambda>info'. Inr (info', currentMedia)))
                    else Inr st))))"

text \<open>\<open>ParseSDP\<close>: the stream info and the error result (\<open>None\<close> for nil), or the panic.\<close>

definition ParseSDP ::
  "Lib \<Rightarrow> string \<Rightarrow> panic + StreamInfo \<times> string option" where
  "ParseSDP lib sdp =
    (let info0 = emptyStreamInfo;
         lines = Split sdp LF
     in bindP (foldP (parseLine lib) (info0, None) lines) (\<lambda>st.
        let info = fst st
        in bindP (if length (VideoTracks info) > 0
                  then bindP (indexAt (VideoTracks info) 0) (\<lambda>videoTrack.
                         Inr (info\<lparr>si_Codec := vt_Codec videoTrack,
                                    si_Resolution := vt_Resolution videoTrack,
                                    si_FPS := vt_FPS videoTrack,
                                    si_Bitrate := vt_Bitrate videoTrack\<rparr>))
                  else Inr info) (\<lambda>info1.
           bindP (if length (AudioTracks info1) > 0
                  then bindP (indexAt (AudioTracks info1) 0) (\<lambda>audioTrack.
                         Inr (info1\<lparr>si_AudioCodec := at_Codec audioTrack,
                                     si_Channels := at_Channels audioTrack\<rparr>))
                  else Inr info1) (\<lambda>info2.
           Inr (info2, None)))))"


section \<open>Definitions used to state the properties\<close>

text \<open>The association list built by the loop of \<open>SaveToCache\<close>.\<close>

definition cacheEntries :: "Time \<Rightarrow> Device list \<Rightarrow> (string \<times> CachedDevice) list" where
  "cacheEntries e devs = fold (\<lambda>d al. AList.update (IP d) \<lparr>Device = d, ExpiresAt = e\<rparr> al) devs []"

text \<open>The pair (tag, port) of a protocol entry.\<close>

definition tagPort :: "Protocol \<Rightarrow> string \<times> int" where
  "tagPort p = (Type p, Port p)"

text \<open>The networks \<open>0.0.0.0/0\<close> and \<open>192.168.1.0/24\<close> as \<open>ParseCIDR\<close> returns them.\<close>

definition allNet :: IPNet where
  "allNet = \<lparr>net_IP = [0, 0, 0, 0], net_Mask = [0, 0, 0, 0]\<rparr>"

definition net24 :: IPNet where
  "net24 = \<lparr>net_IP = [192, 168, 1, 0], net_Mask = [255, 255, 255, 0]\<rparr>"




text \<open>The visible ASCII characters, U+0021 to U+007E.\<close>

definition visibleASCII :: "char \<Rightarrow> bool" where
  "visibleASCII c = ((33::nat) \<le> of_char c \<and> of_char c \<le> (126::nat))"

text \<open>
  The claim's \<open>md5\<close>: the MD5 digest of the data, which is \<open>md5.Sum\<close> of the environment,
  written as lower-case hexadecimal digits, two per byte, the high half first.
\<close>

definition spec_hexDigit :: "nat \<Rightarrow> char" where
  "spec_hexDigit n = (if n < 10 then ''0123456789'' ! n else ''abcdef'' ! (n - 10))"

definition spec_md5 :: "Env \<Rightarrow> string \<Rightarrow> string" where
  "spec_md5 env data =
    concat (map (\<lambda>b. [spec_hexDigit (unat b div 16), spec_hexDigit (unat b mod 16)])
                (md5_Sum env data))"

section \<open>Example data\<close>

text \<open>Two reports about the host 10.0.0.5: one from the TCP sweep, one from ONVIF discovery.\<close>

definition camA :: Device where
  "camA = \<lparr>IP = ''10.0.0.5'', MAC = ''00:11:22:33:44:55'', Hostname = ''camera-01'',
           Manufacturer = ''Hikvision'', Model = ''DS-2CD2342WD-I'',
           Protocols = [\<lparr>Type = ''RTSP'', Port = 554, URL = ''rtsp://10.0.0.5:554'',
                         Available = True, DetectedAt = 100\<rparr>],
           RTSPStreams = [], DiscoveredAt = 100, LastSeen = 100\<rparr>"

definition camB :: Device where
  "camB = \<lparr>IP = ''10.0.0.5'', MAC = [], Hostname = [],
           Manufacturer = ''Axis'', Model = [],
           Protocols = [\<lparr>Type = ''ONVIF'', Port = 80,
                         URL = ''http://10.0.0.5:80/onvif/device_service'',
                         Available = True, DetectedAt = 200\<rparr>],
           RTSPStreams = [], DiscoveredAt = 200, LastSeen = 200\<rparr>"

text \<open>A camera at 10.0.0.6 that answers OPTIONS with 200, the first DESCRIBE with a Basic
  challenge and the second DESCRIBE with 200 and an SDP body.\<close>

definition camStream :: string where
  "camStream = ''RTSP/1.0 200 OK'' @ CRLF @ ''CSeq: 2'' @ CRLF @ CRLF
     @ ''RTSP/1.0 401 Unauthorized'' @ CRLF @ ''CSeq: 3'' @ CRLF
     @ ''WWW-Authenticate: Basic realm='' @ dq @ ''cam'' @ dq @ CRLF @ CRLF
     @ ''RTSP/1.0 200 OK'' @ CRLF @ ''CSeq: 4'' @ CRLF @ ''Content-Length: 4'' @ CRLF @ CRLF
     @ ''v=0'' @ [LF]"

definition camEnv :: "(string \<Rightarrow> 8 word list) \<Rightarrow> (string \<Rightarrow> string) \<Rightarrow> Env" where
  "camEnv md5 b64 =
    \<lparr>url_Parse = (\<lambda>u. if u = ''rtsp://10.0.0.6:554/live''
                       then Some \<lparr>u_Hostname = ''10.0.0.6'', u_Port = ''554'', u_Path = ''/live''\<rparr>
                       else None),
     net_DialTimeout = (\<lambda>address tmo. if address = ''10.0.0.6:554''
                       then Some \<lparr>written = [], incoming = camStream, writeFails = False,
                                  deadlineFails = False\<rparr>
                       else None),
     net_LookupAddr = (\<lambda>ip. None),
     md5_Sum = md5, base64_EncodeToString = b64\<rparr>"

definition digestClient :: Client where
  "digestClient =
    \<lparr>conn = \<lparr>written = [], incoming = [], writeFails = False, deadlineFails = False\<rparr>,
     reader = [], url = \<lparr>u_Hostname = ''x'', u_Port = [], u_Path = ''/''\<rparr>,
     username = ''admin'', password = ''12345'', timeout = 5, sessionID = [], cseq = 3,
     authMethod = ''Digest'', realm = ''IPCam'', nonce = ''abc''\<rparr>"

text \<open>A host that listens on one address and sends the given bytes to whoever connects.\<close>

definition serverEnv :: "string \<Rightarrow> string \<Rightarrow> Env" where
  "serverEnv address bytes =
    \<lparr>url_Parse = (\<lambda>u. None),
     net_DialTimeout = (\<lambda>a tmo. if a = address
                        then Some \<lparr>written = [], incoming = bytes, writeFails = False,
                                   deadlineFails = False\<rparr>
                        else None),
     net_LookupAddr = (\<lambda>ip. None),
     md5_Sum = (\<lambda>data. []), base64_EncodeToString = (\<lambda>data. [])\<rparr>"




text \<open>A library that reads the number 25 and leaves non-ASCII strings as they are.\<close>

definition fixtureLib :: Lib where
  "fixtureLib = \<lparr>strconv_ParseFloat = (\<lambda>s. if s = ''25'' then Some 25 else None),
                  unicode_ToUpper = (\<lambda>s. s)\<rparr>"


section \<open>Properties of the orchestrator merge\<close>

lemma protocolMap_None:
  "fold (\<lambda>p m. m(protocolKey p \<mapsto> p)) xs m0 k = None
     \<longleftrightarrow> m0 k = None \<and> k \<notin> protocolKey ` set xs"
  by (induction xs arbitrary: m0) auto

lemma fold_append_filter:
  "fold (\<lambda>p ps. if P p then ps @ [p] else ps) ys xs = xs @ filter P ys"
  by (induction ys arbitrary: xs) auto

lemma Protocols_mergeDevices:
  "Protocols (mergeDevices now e n) =
     Protocols e @ filter (\<lambda>p. protocolKey p \<notin> protocolKey ` set (Protocols e)) (Protocols n)"
  by (simp add: mergeDevices_def Let_def protocolMap_None fold_append_filter)

lemma Manufacturer_mergeDevices:
  "Manufacturer (mergeDevices now e n) =
     (if Manufacturer e \<noteq> [] then Manufacturer e else Manufacturer n)"
  by (simp add: mergeDevices_def Let_def)

lemma Model_mergeDevices:
  "Model (mergeDevices now e n) = (if Model e \<noteq> [] then Model e else Model n)"
  by (simp add: mergeDevices_def Let_def)

lemma Hostname_mergeDevices:
  "Hostname (mergeDevices now e n) = (if Hostname e \<noteq> [] then Hostname e else Hostname n)"
  by (simp add: mergeDevices_def Let_def)

lemma MAC_mergeDevices:
  "MAC (mergeDevices now e n) = (if MAC e \<noteq> [] then MAC e else MAC n)"
  by (simp add: mergeDevices_def Let_def)

lemma unchanged_mergeDevices:
  "IP (mergeDevices now e n) = IP e"
  "DiscoveredAt (mergeDevices now e n) = DiscoveredAt e"
  "RTSPStreams (mergeDevices now e n) = RTSPStreams e"
  by (simp_all add: mergeDevices_def Let_def)

lemma LastSeen_mergeDevices:
  "LastSeen (mergeDevices now e n) =
     (if DiscoveredAt n > DiscoveredAt e then now else LastSeen e)"
  by (simp add: mergeDevices_def Let_def)

lemma Protocols_mergeDevices_assoc:
  "Protocols (mergeDevices t2 (mergeDevices t1 D D') D'') =
   Protocols (mergeDevices t4 D (mergeDevices t3 D' D''))"
  by (auto simp add: Protocols_mergeDevices image_Un intro!: filter_cong)

lemma Device_eqI:
  "IP a = IP b \<Longrightarrow> MAC a = MAC b \<Longrightarrow> Hostname a = Hostname b
   \<Longrightarrow> Manufacturer a = Manufacturer b \<Longrightarrow> Model a = Model b
   \<Longrightarrow> Protocols a = Protocols b \<Longrightarrow> RTSPStreams a = RTSPStreams b
   \<Longrightarrow> DiscoveredAt a = DiscoveredAt b \<Longrightarrow> LastSeen a = LastSeen b \<Longrightarrow> (a::Device) = b"
  by simp

text \<open>The decimal rendering is injective and has no colon in it, so the map key
  \<open>type:port\<close> of \<open>mergeDevices\<close> identifies the pair (tag, port).\<close>

lemma utoa_nonempty: "utoa n \<noteq> []"
  by (subst utoa.simps) simp

lemma digit_inj: "m < 10 \<Longrightarrow> n < 10 \<Longrightarrow> ''0123456789'' ! m = ''0123456789'' ! n \<Longrightarrow> m = n"
proof -
  have "distinct ''0123456789''" by simp
  then show "m < 10 \<Longrightarrow> n < 10 \<Longrightarrow> ''0123456789'' ! m = ''0123456789'' ! n \<Longrightarrow> m = n"
    by (simp add: nth_eq_iff_index_eq)
qed

lemma digit_in: "n < 10 \<Longrightarrow> ''0123456789'' ! n \<in> set ''0123456789''"
  by (rule nth_mem) simp

lemma utoa_digits: "set (utoa n) \<subseteq> set ''0123456789''"
proof (induction n rule: utoa.induct)
  case (1 n)
  show ?case
  proof (cases "n < 10")
    case True
    then show ?thesis using digit_in[of n] by (subst utoa.simps) simp
  next
    case False
    have "n mod 10 < 10" by simp
    from digit_in[OF this] 1[OF False] False show ?thesis
      by (subst utoa.simps) simp
  qed
qed

lemma utoa_inj: "utoa m = utoa n \<Longrightarrow> m = n"
proof (induction m arbitrary: n rule: utoa.induct)
  case (1 m)
  have um: "utoa m = (if m < 10 then [''0123456789'' ! m]
             else utoa (m div 10) @ [''0123456789'' ! (m mod 10)])"
    by (rule utoa.simps)
  have un: "utoa n = (if n < 10 then [''0123456789'' ! n]
             else utoa (n div 10) @ [''0123456789'' ! (n mod 10)])"
    by (rule utoa.simps)
  show ?case
  proof (cases "m < 10")
    case True
    show ?thesis
    proof (cases "n < 10")
      case n: True
      with True um un "1.prems" show ?thesis using digit_inj[of m n] by simp
    next
      case False
      with True um un "1.prems" show ?thesis using utoa_nonempty[of "n div 10"] by simp
    qed
  next
    case False
    show ?thesis
    proof (cases "n < 10")
      case True
      with False um un "1.prems" show ?thesis using utoa_nonempty[of "m div 10"] by simp
    next
      case n: False
      with False um un "1.prems"
      have e: "utoa (m div 10) = utoa (n div 10)"
        "''0123456789'' ! (m mod 10) = ''0123456789'' ! (n mod 10)" by simp_all
      from "1.IH"[OF False e(1)] have "m div 10 = n div 10" .
      moreover have "m mod 10 = n mod 10" using digit_inj[OF _ _ e(2)] by simp
      ultimately show ?thesis by (metis div_mult_mod_eq)
    qed
  qed
qed

lemma itoa_inj: "itoa i = itoa j \<Longrightarrow> i = j"
proof -
  assume e: "itoa i = itoa j"
  have nd: "CHR ''-'' \<notin> set (utoa n)" for n using utoa_digits[of n] by auto
  have hd: "utoa n \<noteq> CHR ''-'' # s" for n s using nd[of n] by auto
  show ?thesis
  proof (cases "i < 0")
    case True
    show ?thesis
    proof (cases "j < 0")
      case j: True
      with True e have "utoa (nat (- i)) = utoa (nat (- j))" by (simp add: itoa_def)
      from utoa_inj[OF this] True j show ?thesis by simp
    next
      case False
      with True e have "utoa (nat j) = CHR ''-'' # utoa (nat (- i))" by (simp add: itoa_def)
      with hd show ?thesis by blast
    qed
  next
    case False
    show ?thesis
    proof (cases "j < 0")
      case True
      with False e have "utoa (nat i) = CHR ''-'' # utoa (nat (- j))" by (simp add: itoa_def)
      with hd show ?thesis by blast
    next
      case j: False
      with False e have "utoa (nat i) = utoa (nat j)" by (simp add: itoa_def)
      from utoa_inj[OF this] False j show ?thesis by simp
    qed
  qed
qed

lemma itoa_no_colon: "CHR '':'' \<notin> set (itoa i)"
  using utoa_digits[of "nat i"] utoa_digits[of "nat (- i)"] by (auto simp: itoa_def)

lemma takeWhile_upto:
  "c \<notin> set us \<Longrightarrow> takeWhile (\<lambda>x. x \<noteq> c) (us @ c # ws) = us"
  by (induction us) auto

lemma split_at_last:
  assumes "c \<notin> set ys" "c \<notin> set ys'" "xs @ c # ys = xs' @ c # ys'"
  shows "xs = xs' \<and> ys = ys'"
proof -
  have "rev ys @ c # rev xs = rev ys' @ c # rev xs'"
    using arg_cong[OF assms(3), of rev] by simp
  then have "takeWhile (\<lambda>x. x \<noteq> c) (rev ys @ c # rev xs)
             = takeWhile (\<lambda>x. x \<noteq> c) (rev ys' @ c # rev xs')" by simp
  then have "rev ys = rev ys'"
    using assms(1,2) by (simp add: takeWhile_upto)
  then show ?thesis using assms(3) by simp
qed

lemma protocolKey_eq_iff:
  "protocolKey p = protocolKey q \<longleftrightarrow> Type p = Type q \<and> Port p = Port q"
proof
  assume "protocolKey p = protocolKey q"
  then have "Type p @ CHR '':'' # itoa (Port p) = Type q @ CHR '':'' # itoa (Port q)"
    by (simp add: protocolKey_def)
  from split_at_last[OF itoa_no_colon itoa_no_colon this] itoa_inj
  show "Type p = Type q \<and> Port p = Port q" by blast
qed (simp add: protocolKey_def)

lemma protocolKey_tagPort: "protocolKey p = protocolKey q \<longleftrightarrow> tagPort p = tagPort q"
  by (simp add: protocolKey_eq_iff tagPort_def)

lemma protocolKey_image_tagPort:
  "protocolKey p \<in> protocolKey ` set ps \<longleftrightarrow> tagPort p \<in> tagPort ` set ps"
  by (auto simp: image_iff protocolKey_tagPort)

lemma Protocols_mergeDevices_tagPort:
  "Protocols (mergeDevices now e n) =
     Protocols e @ filter (\<lambda>p. tagPort p \<notin> tagPort ` set (Protocols e)) (Protocols n)"
  by (simp add: Protocols_mergeDevices protocolKey_image_tagPort)

lemma image_filter_Un:
  "f ` A \<union> f ` {x \<in> B. f x \<notin> f ` A} = f ` A \<union> f ` B"
  by blast

lemma tagPort_set_mergeDevices:
  "tagPort ` set (Protocols (mergeDevices now e n))
   = tagPort ` set (Protocols e) \<union> tagPort ` set (Protocols n)"
  by (simp add: Protocols_mergeDevices_tagPort image_Un image_filter_Un)

lemma distinct_mergeDevices:
  assumes "distinct (map tagPort (Protocols e))" "distinct (map tagPort (Protocols n))"
  shows "distinct (map tagPort (Protocols (mergeDevices now e n)))"
  using assms by (auto simp: Protocols_mergeDevices_tagPort distinct_map_filter)

text \<open>\<open>LastSeen\<close> does depend on the grouping, also when every merge reads the same clock.\<close>

lemma LastSeen_depends_on_grouping:
  "LastSeen (mergeDevices 400 (mergeDevices 400 camB camA) (camB\<lparr>DiscoveredAt := 300\<rparr>)) = 400
   \<and> LastSeen (mergeDevices 400 camB (mergeDevices 400 camA (camB\<lparr>DiscoveredAt := 300\<rparr>))) = 200"
  by (simp add: LastSeen_mergeDevices unchanged_mergeDevices camA_def camB_def)

text \<open>
  C7, as stated, fails: the merge is not commutative. For the two reports about 10.0.0.5 the
  manufacturer and the order of the protocol list depend on which report came first.
\<close>

theorem C7_merge_not_commutative:
  "IP camA = IP camB
   \<and> Manufacturer (mergeDevices 300 camA camB) = ''Hikvision''
   \<and> Manufacturer (mergeDevices 300 camB camA) = ''Axis''
   \<and> map Type (Protocols (mergeDevices 300 camA camB)) = [''RTSP'', ''ONVIF'']
   \<and> map Type (Protocols (mergeDevices 300 camB camA)) = [''ONVIF'', ''RTSP'']"
  by (simp add: camA_def camB_def mergeDevices_def Let_def protocolKey_def itoa_def utoa.simps)

text \<open>
  C7, amended: the merge is associative but not commutative. merge(merge(D, D'), D'') and
  merge(D, merge(D', D'')) are equal on every field of the device except \<open>LastSeen\<close> (which
  records the clock reading of a merge), whatever the clock readings are. merge(D, D') and
  merge(D', D) carry the same set of (tag, port) pairs. The protocol list of merge(D, D') is
  the list of D followed by the protocols of D' whose (tag, port) is not in D, in their order;
  so it is free of duplicates by (tag, port) when the lists of D and of D' are. Each of MAC,
  hostname, manufacturer and model of merge(D, D') is the value of D when that is not empty,
  and the value of D' otherwise; the IP is the one of D.
\<close>

theorem C7_merge_associative:
  "(mergeDevices tb (mergeDevices ta D D') D'')\<lparr>LastSeen := l\<rparr>
     = (mergeDevices td D (mergeDevices tc D' D''))\<lparr>LastSeen := l\<rparr>
   \<and> tagPort ` set (Protocols (mergeDevices ta D D'))
     = tagPort ` set (Protocols (mergeDevices tc D' D))
   \<and> Protocols (mergeDevices ta D D')
     = Protocols D @ filter (\<lambda>p. tagPort p \<notin> tagPort ` set (Protocols D)) (Protocols D')
   \<and> (distinct (map tagPort (Protocols D)) \<and> distinct (map tagPort (Protocols D'))
        \<longrightarrow> distinct (map tagPort (Protocols (mergeDevices ta D D'))))
   \<and> MAC (mergeDevices ta D D') = (if MAC D \<noteq> [] then MAC D else MAC D')
   \<and> Hostname (mergeDevices ta D D') = (if Hostname D \<noteq> [] then Hostname D else Hostname D')
   \<and> Manufacturer (mergeDevices ta D D')
     = (if Manufacturer D \<noteq> [] then Manufacturer D else Manufacturer D')
   \<and> Model (mergeDevices ta D D') = (if Model D \<noteq> [] then Model D else Model D')
   \<and> IP (mergeDevices ta D D') = IP D"
proof (intro conjI)
  show "(mergeDevices tb (mergeDevices ta D D') D'')\<lparr>LastSeen := l\<rparr>
     = (mergeDevices td D (mergeDevices tc D' D''))\<lparr>LastSeen := l\<rparr>"
    by (rule Device_eqI)
       (simp_all add: Protocols_mergeDevices_assoc Manufacturer_mergeDevices Model_mergeDevices
          Hostname_mergeDevices MAC_mergeDevices unchanged_mergeDevices)
  show "tagPort ` set (Protocols (mergeDevices ta D D'))
     = tagPort ` set (Protocols (mergeDevices tc D' D))"
    by (simp add: tagPort_set_mergeDevices Un_commute)
  show "Protocols (mergeDevices ta D D')
     = Protocols D @ filter (\<lambda>p. tagPort p \<notin> tagPort ` set (Protocols D)) (Protocols D')"
    by (rule Protocols_mergeDevices_tagPort)
  show "distinct (map tagPort (Protocols D)) \<and> distinct (map tagPort (Protocols D'))
        \<longrightarrow> distinct (map tagPort (Protocols (mergeDevices ta D D')))"
    by (simp add: distinct_mergeDevices)
qed (simp_all add: Manufacturer_mergeDevices Model_mergeDevices Hostname_mergeDevices
       MAC_mergeDevices unchanged_mergeDevices)

theorem C7_merge_associative_witness:
  "(mergeDevices 400 (mergeDevices 300 camA camB) camA)\<lparr>LastSeen := 0\<rparr>
     = (mergeDevices 400 camA (mergeDevices 300 camB camA))\<lparr>LastSeen := 0\<rparr>
   \<and> distinct (map tagPort (Protocols camA)) \<and> distinct (map tagPort (Protocols camB))
   \<and> map tagPort (Protocols (mergeDevices 300 camA camB)) = [(''RTSP'', 554), (''ONVIF'', 80)]
   \<and> distinct (map tagPort (Protocols (mergeDevices 300 camA camB)))
   \<and> map tagPort (Protocols (mergeDevices 300 camA camA)) = [(''RTSP'', 554)]
   \<and> MAC (mergeDevices 300 camB camA) = ''00:11:22:33:44:55''
   \<and> Manufacturer (mergeDevices 300 camB camA) = ''Axis''"
  using C7_merge_associative [where tb = 400 and ta = 300 and D = camA and D' = camB and D'' = camA
                                 and l = 0 and td = 400 and tc = 300]
  by (simp add: camA_def camB_def mergeDevices_def Let_def protocolKey_def itoa_def utoa.simps
        tagPort_def)

section \<open>Properties of the registry\<close>

text \<open>
  C8, as stated, fails on the registry path: \<open>AddDevice\<close> on an IP already recorded replaces
  a stored, non-empty MAC by the empty MAC of the new report.
\<close>

theorem C8_AddDevice_overwrites:
  "map_option MAC (GetDevice (AddDevice 100 (NewDeviceRegistry 3600) camA) ''10.0.0.5'')
     = Some ''00:11:22:33:44:55''
   \<and> map_option MAC (GetDevice (AddDevice 300 (AddDevice 100 (NewDeviceRegistry 3600) camA) camB)
                        ''10.0.0.5'') = Some []"
  by (simp add: camA_def camB_def AddDevice_def GetDevice_def NewDeviceRegistry_def)

text \<open>
  C8, amended: in the orchestrator merge each of MAC, hostname, manufacturer and model keeps
  a non-empty stored value and takes the new value when the stored one is empty; the
  registry's \<open>AddDevice\<close> on an IP already recorded replaces the four attributes by those of
  the new device, empty or not.
\<close>

theorem C8_scalar_attributes:
  "MAC (mergeDevices now e n) = (if MAC e \<noteq> [] then MAC e else MAC n)
   \<and> Hostname (mergeDevices now e n) = (if Hostname e \<noteq> [] then Hostname e else Hostname n)
   \<and> Manufacturer (mergeDevices now e n)
       = (if Manufacturer e \<noteq> [] then Manufacturer e else Manufacturer n)
   \<and> Model (mergeDevices now e n) = (if Model e \<noteq> [] then Model e else Model n)
   \<and> (devices r (IP n) = Some e \<longrightarrow>
        (\<exists>d. GetDevice (AddDevice now r n) (IP n) = Some d
           \<and> MAC d = MAC n \<and> Hostname d = Hostname n
           \<and> Manufacturer d = Manufacturer n \<and> Model d = Model n))"
  by (simp add: MAC_mergeDevices Hostname_mergeDevices Manufacturer_mergeDevices
        Model_mergeDevices AddDevice_def GetDevice_def)

theorem C8_scalar_attributes_witness:
  "devices (AddDevice 100 (NewDeviceRegistry 3600) camA) (IP camB) = Some camA
   \<and> MAC (mergeDevices 300 camA camB) = ''00:11:22:33:44:55''
   \<and> Model (mergeDevices 300 camB camA) = ''DS-2CD2342WD-I''
   \<and> (\<exists>d. GetDevice (AddDevice 300 (AddDevice 100 (NewDeviceRegistry 3600) camA) camB)
               (IP camB) = Some d
         \<and> MAC d = [] \<and> Hostname d = [] \<and> Manufacturer d = ''Axis'' \<and> Model d = [])"
proof -
  have h: "devices (AddDevice 100 (NewDeviceRegistry 3600) camA) (IP camB) = Some camA"
    by (simp add: camA_def camB_def AddDevice_def NewDeviceRegistry_def)
  have v: "MAC camB = [] \<and> Hostname camB = [] \<and> Manufacturer camB = ''Axis'' \<and> Model camB = []
           \<and> MAC camA = ''00:11:22:33:44:55'' \<and> Model camA = ''DS-2CD2342WD-I''"
    by (simp add: camA_def camB_def)
  show ?thesis
    using h v
      C8_scalar_attributes [of 300 camA camB "AddDevice 100 (NewDeviceRegistry 3600) camA"]
      C8_scalar_attributes [of 300 camB camA "AddDevice 100 (NewDeviceRegistry 3600) camA"]
    by simp
qed

lemma cacheEntries_snoc:
  "cacheEntries e (xs @ [x]) =
     AList.update (IP x) \<lparr>Device = x, ExpiresAt = e\<rparr> (cacheEntries e xs)"
  by (simp add: cacheEntries_def)

lemma distinct_cacheEntries: "distinct (map fst (cacheEntries e devs))"
  by (induction devs rule: rev_induct) (simp_all add: cacheEntries_def distinct_update)

lemma map_of_cacheEntries:
  "map_of (cacheEntries e devs) ip =
     (if ip \<in> IP ` set devs
      then Some \<lparr>Device = last (filter (\<lambda>d. IP d = ip) devs), ExpiresAt = e\<rparr> else None)"
proof (induction devs rule: rev_induct)
  case Nil
  show ?case by (simp add: cacheEntries_def)
next
  case (snoc x xs)
  show ?case
    by (simp add: cacheEntries_snoc update_conv' snoc.IH)
qed

lemma set_cacheEntries:
  "snd ` set (cacheEntries e devs) =
     (\<lambda>ip. \<lparr>Device = last (filter (\<lambda>d. IP d = ip) devs), ExpiresAt = e\<rparr>) ` IP ` set devs"
proof -
  have "snd ` set (cacheEntries e devs) = ran (map_of (cacheEntries e devs))"
    by (simp add: ran_distinct distinct_cacheEntries)
  also have "\<dots> = (\<lambda>ip. \<lparr>Device = last (filter (\<lambda>d. IP d = ip) devs), ExpiresAt = e\<rparr>)
                     ` IP ` set devs"
    unfolding ran_def by (auto simp: map_of_cacheEntries split: if_splits)
  finally show ?thesis .
qed

lemma GetFromCache_SaveToCache:
  "GetFromCache now (SaveToCache t r devs) =
     (if t = 0 \<or> now > t + defaultTTL (cache r) then None
      else let vs = map Device (filter (\<lambda>c. now < ExpiresAt c)
                       (map snd (cacheEntries (t + defaultTTL (cache r)) devs)))
           in if vs = [] then None else Some vs)"
  by (simp add: GetFromCache_def SaveToCache_def Let_def cacheEntries_def)

lemma filter_valid:
  "now < e \<Longrightarrow> filter (\<lambda>c. now < ExpiresAt c) (map snd (cacheEntries e devs))
                 = map snd (cacheEntries e devs)"
  "\<not> now < e \<Longrightarrow> filter (\<lambda>c. now < ExpiresAt c) (map snd (cacheEntries e devs)) = []"
  using set_cacheEntries[of e devs] by (auto simp: filter_empty_conv filter_id_conv)

lemma last_filter_IP:
  assumes "ip \<in> IP ` set devs"
  shows "IP (last (filter (\<lambda>d. IP d = ip) devs)) = ip"
proof -
  have ne: "filter (\<lambda>d. IP d = ip) devs \<noteq> []"
    using assms by (auto simp: filter_empty_conv)
  from last_in_set[OF ne] show ?thesis by simp
qed

lemma cacheEntries_key:
  assumes "(k, c) \<in> set (cacheEntries e devs)"
  shows "IP (Device c) = k"
proof -
  have "map_of (cacheEntries e devs) k = Some c"
    using assms distinct_cacheEntries by simp
  then show ?thesis
    by (auto simp: map_of_cacheEntries last_filter_IP split: if_splits)
qed

lemma map_IP_cacheEntries:
  "map IP (map Device (map snd (cacheEntries e devs))) = map fst (cacheEntries e devs)"
  by (auto simp: cacheEntries_key)

lemma filter_distinct_key:
  "distinct (map f xs) \<Longrightarrow> x \<in> set xs \<Longrightarrow> filter (\<lambda>y. f y = f x) xs = [x]"
proof (induction xs)
  case Nil
  then show ?case by simp
next
  case (Cons a xs)
  show ?case
  proof (cases "a = x")
    case True
    have "filter (\<lambda>y. f y = f x) xs = []"
      using Cons.prems True by (auto simp: filter_empty_conv image_iff)
    then show ?thesis using True by simp
  next
    case False
    then have "x \<in> set xs" using Cons.prems by simp
    moreover have "f a \<noteq> f x" using Cons.prems \<open>x \<in> set xs\<close> by auto
    ultimately show ?thesis using Cons by simp
  qed
qed

lemma last_saved_distinct:
  assumes "distinct (map IP devs)"
  shows "(\<lambda>ip. last (filter (\<lambda>d. IP d = ip) devs)) ` IP ` set devs = set devs"
proof -
  have "\<And>d. d \<in> set devs \<Longrightarrow> last (filter (\<lambda>x. IP x = IP d) devs) = d"
    using filter_distinct_key[OF assms] by simp
  then show ?thesis by (force simp: image_image)
qed

text \<open>Every read at or after the instant \<open>t + TTL\<close> reports the cache as absent.\<close>

lemma ExpiresAt_cacheEntries:
  "c \<in> snd ` set (cacheEntries e devs) \<Longrightarrow> ExpiresAt c = e"
  by (auto simp: set_cacheEntries)

lemma GetFromCache_absent_from_expiry:
  "now \<ge> t + defaultTTL (cache r) \<Longrightarrow> GetFromCache now (SaveToCache t r devs) = None"
proof -
  assume a: "now \<ge> t + defaultTTL (cache r)"
  have "filter (\<lambda>c. now < ExpiresAt c)
          (map snd (cacheEntries (t + defaultTTL (cache r)) devs)) = []"
    using a ExpiresAt_cacheEntries[of _ "t + defaultTTL (cache r)" devs]
    by (auto simp: filter_empty_conv)
  then show ?thesis by (simp add: GetFromCache_SaveToCache Let_def)
qed

text \<open>
  C9, as stated, fails at the instant \<open>last_scan + TTL\<close> itself: a read at exactly that time
  reports the cache as absent, because every cached device is valid only strictly before
  its \<open>ExpiresAt\<close>.
\<close>

theorem C9_absent_at_expiry_instant:
  "GetFromCache (1000 + 60) (SaveToCache 1000 (NewDeviceRegistry 60) [camA]) = None"
  by (simp add: GetFromCache_def SaveToCache_def NewDeviceRegistry_def Let_def camA_def)

text \<open>
  C9, amended: after \<open>SaveToCache\<close> at time \<open>t\<close> with TTL \<open>defaultTTL\<close>, every read strictly
  after \<open>t + TTL\<close> reports the cache as absent; every read strictly before \<open>t + TTL\<close> of a
  non-empty snapshot (saved at a non-zero time) reports it as present and returns, in some
  order, one device per distinct IP of the snapshot, the last one saved for that IP: the
  whole snapshot when its IPs are distinct.
\<close>

theorem C9_cache_ttl:
  "(now > t + defaultTTL (cache r) \<longrightarrow> GetFromCache now (SaveToCache t r devs) = None)
   \<and> (t \<noteq> 0 \<and> now < t + defaultTTL (cache r) \<and> devs \<noteq> [] \<longrightarrow>
        (\<exists>vs. GetFromCache now (SaveToCache t r devs) = Some vs
           \<and> set vs = (\<lambda>ip. last (filter (\<lambda>d. IP d = ip) devs)) ` IP ` set devs
           \<and> distinct (map IP vs)
           \<and> (distinct (map IP devs) \<longrightarrow> set vs = set devs)))"
proof (intro conjI impI)
  assume "now > t + defaultTTL (cache r)"
  then show "GetFromCache now (SaveToCache t r devs) = None"
    by (simp add: GetFromCache_SaveToCache)
next
  assume a: "t \<noteq> 0 \<and> now < t + defaultTTL (cache r) \<and> devs \<noteq> []"
  let ?al = "cacheEntries (t + defaultTTL (cache r)) devs"
  let ?vs = "map Device (map snd ?al)"
  have "set ?vs = Device ` (snd ` set ?al)"
    by (simp add: image_image)
  also have "\<dots> = Device ` ((\<lambda>ip. \<lparr>Device = last (filter (\<lambda>d. IP d = ip) devs),
                                   ExpiresAt = t + defaultTTL (cache r)\<rparr>) ` IP ` set devs)"
    by (simp only: set_cacheEntries)
  also have "\<dots> = (\<lambda>ip. last (filter (\<lambda>d. IP d = ip) devs)) ` IP ` set devs"
    by (simp add: image_image)
  finally have s: "set ?vs = (\<lambda>ip. last (filter (\<lambda>d. IP d = ip) devs)) ` IP ` set devs" .
  have ne: "?vs \<noteq> []" using s a by (cases devs) auto
  have d: "distinct (map IP ?vs)"
    by (simp only: map_IP_cacheEntries distinct_cacheEntries)
  have g: "GetFromCache now (SaveToCache t r devs) = Some ?vs"
    using a ne by (simp add: GetFromCache_SaveToCache filter_valid Let_def)
  have "distinct (map IP devs) \<longrightarrow> set ?vs = set devs"
    unfolding s by (simp add: last_saved_distinct)
  with g s d
  show "\<exists>vs. GetFromCache now (SaveToCache t r devs) = Some vs
           \<and> set vs = (\<lambda>ip. last (filter (\<lambda>d. IP d = ip) devs)) ` IP ` set devs
           \<and> distinct (map IP vs)
           \<and> (distinct (map IP devs) \<longrightarrow> set vs = set devs)"
    by blast
qed

theorem C9_cache_ttl_witness:
  "(1061::int) > 1000 + defaultTTL (cache (NewDeviceRegistry 60))
   \<and> GetFromCache 1061 (SaveToCache 1000 (NewDeviceRegistry 60) [camA]) = None
   \<and> (1000::int) \<noteq> 0 \<and> (1059::int) < 1000 + defaultTTL (cache (NewDeviceRegistry 60))
   \<and> [camA] \<noteq> [] \<and> distinct (map IP [camA])
   \<and> (\<exists>vs. GetFromCache 1059 (SaveToCache 1000 (NewDeviceRegistry 60) [camA]) = Some vs
         \<and> set vs = {camA})"
  using C9_cache_ttl [of 1000 "NewDeviceRegistry 60" 1061 "[camA]"]
        C9_cache_ttl [of 1000 "NewDeviceRegistry 60" 1059 "[camA]"]
  by (auto simp add: NewDeviceRegistry_def)

section \<open>Properties of the network utilities\<close>

lemma length_incrementRev: "length (incrementRev bs) = length bs"
  by (induction bs) auto

lemma length_incrementIP: "length (incrementIP ip) = length ip"
  by (simp add: incrementIP_def length_incrementRev)

lemma ContainsIP_allNet: "length ip = 4 \<Longrightarrow> ContainsIP allNet ip"
  by (auto simp: ContainsIP_def allNet_def Mask_def length_Suc_conv numeral_eq_Suc)

text \<open>On the network \<open>0.0.0.0/0\<close> the loop never returns: every four-byte address is inside
  the network, and \<open>incrementIP\<close> wraps 255.255.255.255 around to 0.0.0.0.\<close>

lemma hostsLoop_allNet_never_returns:
  assumes "hostsLoop n b ip hs = Some y"
  shows "\<not> (n = allNet \<and> length ip = 4)"
proof (rule hostsLoop.raw_induct[where P = "\<lambda>n b ip hs y. \<not> (n = allNet \<and> length ip = 4)",
         OF _ assms])
  fix f :: "IPNet \<Rightarrow> byte list \<Rightarrow> byte list \<Rightarrow> string list \<Rightarrow> string list option"
    and n b ip hs y
  assume IH: "\<And>n b ip hs y. f n b ip hs = Some y \<Longrightarrow> \<not> (n = allNet \<and> length ip = 4)"
    and body: "(if ContainsIP n ip
                then f n b (incrementIP ip)
                       (if ip \<noteq> net_IP n \<and> ip \<noteq> b then hs @ [IPString ip] else hs)
                else Some hs) = Some y"
  show "\<not> (n = allNet \<and> length ip = 4)"
  proof
    assume a: "n = allNet \<and> length ip = 4"
    then have "ContainsIP n ip" by (simp add: ContainsIP_allNet)
    with body have "f n b (incrementIP ip)
            (if ip \<noteq> net_IP n \<and> ip \<noteq> b then hs @ [IPString ip] else hs) = Some y"
      by simp
    from IH[OF this] a show False by (simp add: length_incrementIP)
  qed
qed

lemma ParseCIDR_all: "ParseCIDR ''0.0.0.0/0'' = Some allNet"
  unfolding allNet_def by code_simp

text \<open>
  C3, at the failing input: for the valid CIDR string \<open>0.0.0.0/0\<close> the call of
  \<open>GetSubnetHosts\<close> does not return (the value \<open>None\<close> of the model), whatever the default
  subnet is; the claim promises the list of host addresses.
\<close>

theorem C3_GetSubnetHosts_all_addresses_diverges:
  "GetSubnetHosts defaultSubnet ''0.0.0.0/0'' = None"
proof -
  have "hostsLoop allNet b [0, 0, 0, 0] [] = None" for b
    using hostsLoop_allNet_never_returns[of allNet b "[0, 0, 0, 0]" "[]"]
    by (cases "hostsLoop allNet b [0, 0, 0, 0] []") auto
  then show ?thesis
    by (simp add: GetSubnetHosts_def ParseSubnet_def ParseCIDR_all Mask_def Let_def allNet_def)
qed

text \<open>The two examples of C3 hold: \<open>192.168.1.0/30\<close> and \<open>192.168.1.0/24\<close>.\<close>

lemma GetSubnetHosts_30:
  "GetSubnetHosts defaultSubnet ''192.168.1.0/30''
   = Some (Inr [''192.168.1.1'', ''192.168.1.2''])"
  by code_simp

lemma ContainsIP_net24: "ContainsIP net24 [192, 168, 1, w]"
  by (simp add: ContainsIP_def net24_def Mask_def)

lemma not_ContainsIP_net24: "\<not> ContainsIP net24 [192, 168, 2, 0]"
  by (simp add: ContainsIP_def net24_def Mask_def)

lemma incrementIP_last: "w + 1 \<noteq> 0 \<Longrightarrow> incrementIP [a, b, c, w] = [a, b, c, w + 1]"
  by (simp add: incrementIP_def)

lemma incrementIP_255: "incrementIP [192, 168, 1, 255] = [192, 168, 2, 0]"
  by (simp add: incrementIP_def)

lemma byte_of_nat_eq: "j < 256 \<Longrightarrow> k < 256 \<Longrightarrow> (of_nat j :: byte) = of_nat k \<longleftrightarrow> j = k"
  by (simp add: word_of_nat_eq_iff take_bit_nat_eq_self)

lemma IPString_24: "k < 256 \<Longrightarrow> IPString [192, 168, 1, of_nat k] = ''192.168.1.'' @ utoa k"
  by (simp add: IPString_def utoa.simps unat_of_nat)

lemma hostsLoop_24:
  "k \<le> 255 \<Longrightarrow>
   hostsLoop net24 [192, 168, 1, 255] [192, 168, 1, of_nat k] acc
   = Some (acc @ map (\<lambda>j. ''192.168.1.'' @ utoa j)
                     (filter (\<lambda>j. 0 < j \<and> j \<noteq> 255) [k..<256]))"
proof (induction "255 - k" arbitrary: k acc)
  case 0
  then have k: "k = 255" by simp
  have "[255..<256] = [255::nat]" by (simp add: upt_rec)
  then show ?case
    unfolding k
    by (subst hostsLoop.simps, simp add: ContainsIP_net24 incrementIP_255 net24_def)
       (subst hostsLoop.simps, simp add: not_ContainsIP_net24[unfolded net24_def])
next
  case (Suc n)
  then have k: "k < 255" by simp
  then have ne: "(of_nat k :: byte) + 1 \<noteq> 0"
    using byte_of_nat_eq[of "k + 1" 0] by (simp add: add.commute)
  have nb: "(of_nat k :: byte) \<noteq> 255"
    using byte_of_nat_eq[of k 255] k by simp
  have z: "(of_nat k :: byte) = 0 \<longleftrightarrow> k = 0"
    using byte_of_nat_eq[of k 0] k by simp
  have next_ip: "incrementIP [192, 168, 1, of_nat k] = [192, 168, 1, of_nat (k + 1)]"
    using incrementIP_last[OF ne] by simp
  have upt: "[k..<256] = k # [k + 1..<256]"
    using k by (simp add: upt_conv_Cons)
  have IH: "\<And>acc. hostsLoop net24 [192, 168, 1, 255] [192, 168, 1, of_nat (k + 1)] acc
     = Some (acc @ map (\<lambda>j. ''192.168.1.'' @ utoa j)
                       (filter (\<lambda>j. 0 < j \<and> j \<noteq> 255) [k + 1..<256]))"
    using Suc.hyps(1)[of "k + 1"] Suc.hyps(2) k by simp
  show ?case
    apply (subst hostsLoop.simps)
    apply (simp only: ContainsIP_net24 if_True next_ip IH)
    using k apply (simp add: upt net24_def nb z IPString_24)
    done
qed

lemma filter_hosts: "filter (\<lambda>j. 0 < j \<and> j \<noteq> 255) [0..<256] = [1..<255]"
proof -
  have "[0..<256] = [0::nat] @ [1..<255] @ [255]"
    by (simp add: upt_rec[of 0] upt_Suc_append[symmetric] flip: upt_Suc_append del: upt_Suc)
  then show ?thesis by (simp add: filter_id_conv del: upt_Suc)
qed

lemma broadcast24:
  "map (\<lambda>(a, m). a OR NOT m) (zip [192, 168, 1, 0] [255, 255, 255, 0])
   = [192, 168, 1, 255::byte]"
  by code_simp

lemma ParseCIDR_24: "ParseCIDR ''192.168.1.0/24'' = Some net24"
  unfolding net24_def by code_simp

lemma GetSubnetHosts_24:
  "GetSubnetHosts defaultSubnet ''192.168.1.0/24''
   = Some (Inr (map (\<lambda>j. ''192.168.1.'' @ utoa j) [1..<255]))"
proof -
  have m: "Mask [192, 168, 1, 0] [255, 255, 255, 0] = [192, 168, 1, 0::byte]"
    by (simp add: Mask_def)
  have h: "hostsLoop net24
              (map (\<lambda>(a, m). a OR NOT m) (zip [192, 168, 1, 0] [255, 255, 255, 0]))
              [192, 168, 1, 0] []
            = Some (map (\<lambda>j. ''192.168.1.'' @ utoa j) [1..<255])"
    unfolding broadcast24 using hostsLoop_24[of 0 "[]"] by (simp only: filter_hosts) simp
  show ?thesis
    using h by (simp add: GetSubnetHosts_def ParseSubnet_def ParseCIDR_24 Let_def m net24_def)
qed

section \<open>Properties of the RTSP detector and of the TCP sweep\<close>

text \<open>What the detector accepts: a status line that contains \<open>RTSP/1.0\<close> and contains
  \<open>200\<close> or \<open>401\<close>, anywhere in the line.\<close>

lemma Detect_Available_iff:
  "Available (fst (Detect env now ip port tmo)) \<longleftrightarrow>
     (\<exists>cn response rest. net_DialTimeout env (ip @ '':'' @ itoa port) tmo = Some cn
        \<and> \<not> writeFails cn \<and> ReadString (incoming cn) = Some (response, rest)
        \<and> Contains response ''RTSP/1.0''
        \<and> (Contains response ''200'' \<or> Contains response ''401''))"
  by (auto simp: Detect_def Let_def split: option.splits)

text \<open>
  C2, at the failing input: the status line \<open>RTSP/1.0 500 Internal Server Error (code 2001)\<close>
  starts with \<open>RTSP/1.0\<close> and has the status code 500, and the detector reports RTSP as
  present with the URL \<open>rtsp://10.0.0.9:554\<close>, because the line contains \<open>200\<close>.
\<close>

theorem C2_Detect_accepts_status_500:
  "Detect (serverEnv ''10.0.0.9:554''
             (''RTSP/1.0 500 Internal Server Error (code 2001)'' @ CRLF))
          100 ''10.0.0.9'' 554 5000000000
   = (\<lparr>Type = ''RTSP'', Port = 554, URL = ''rtsp://10.0.0.9:554'', Available = True,
        DetectedAt = 100\<rparr>, None)"
  by (simp add: Detect_def serverEnv_def Let_def itoa_def utoa.simps ReadString_def CRLF_def
        CR_def LF_def HasPrefix_def)







section \<open>Properties of the RTSP session client\<close>

lemma sendRequest_cseq: "cseq (snd (sendRequest env c m p hs)) = cseq c + 1"
  by (simp add: sendRequest_def Let_def split: prod.splits)

lemma NewClient_cseq: "NewClient env rtspURL user pass tmo = Inr c \<Longrightarrow> cseq c = 1"
  by (auto simp: NewClient_def Let_def split: option.splits if_splits)

text \<open>The request that \<open>sendRequest\<close> writes carries the incremented value, so the first
  request of every session carries CSeq 2.\<close>

lemma sendRequest_written:
  "\<not> writeFails (conn c) \<Longrightarrow>
   \<exists>rest. written (conn (snd (sendRequest env c m p hs)))
     = written (conn c) @ [m @ '' '' @ p @ '' RTSP/1.0'' @ CRLF
                            @ ''CSeq: '' @ itoa (cseq c + 1) @ CRLF @ rest]"
  by (simp add: sendRequest_def Let_def split: prod.splits)

lemma first_request_CSeq:
  assumes "NewClient env rtspURL user pass tmo = Inr c" "\<not> writeFails (conn c)"
  shows "\<exists>rest. written (conn (snd (sendRequest env c m p hs)))
     = written (conn c) @ [m @ '' '' @ p @ '' RTSP/1.0'' @ CRLF @ ''CSeq: 2'' @ CRLF @ rest]"
proof -
  have "itoa (cseq c + 1) = ''2''"
    using NewClient_cseq[OF assms(1)] by (simp add: itoa_def utoa.simps)
  with sendRequest_written[OF assms(2), of env m p hs] show ?thesis by simp
qed

text \<open>
  C4, at the failing input: in the session with the camera at 10.0.0.6 the three requests
  carry the CSeq values 2, 3 and 4. Each request increments CSeq exactly once
  (\<open>sendRequest_cseq\<close>), but the client starts from 1 (\<open>NewClient_cseq\<close>) and increments
  before it writes, so the first element of the sequence is 2, not 1.
\<close>

theorem C4_first_CSeq_is_2:
  "map_sum id (\<lambda>c0. written (conn (snd (Describe (camEnv md5 b64)
                                           (snd (Options (camEnv md5 b64) c0))))))
     (NewClient (camEnv md5 b64) ''rtsp://10.0.0.6:554/live'' ''admin'' ''12345'' 5000000000)
   = Inr [''OPTIONS * RTSP/1.0'' @ CRLF @ ''CSeq: 2'' @ CRLF
            @ ''User-Agent: Local-video-server/1.0'' @ CRLF @ CRLF,
          ''DESCRIBE /live RTSP/1.0'' @ CRLF @ ''CSeq: 3'' @ CRLF
            @ ''Accept: application/sdp'' @ CRLF
            @ ''User-Agent: Local-video-server/1.0'' @ CRLF @ CRLF,
          ''DESCRIBE /live RTSP/1.0'' @ CRLF @ ''CSeq: 4'' @ CRLF
            @ ''Accept: application/sdp'' @ CRLF
            @ ''User-Agent: Local-video-server/1.0'' @ CRLF
            @ ''Authorization: Basic '' @ b64 ''admin:12345'' @ CRLF @ CRLF]"
  apply code_simp
  apply simp
  done

text \<open>White space around a status line: a visible ASCII character is not white space, and
  the line terminator is.\<close>

lemma spaceRunes_ends:
  "p \<in> set spaceRunes \<Longrightarrow> p \<noteq> [] \<and> \<not> visibleASCII (hd p) \<and> \<not> visibleASCII (last p)"
proof -
  have "list_all (\<lambda>p. p \<noteq> [] \<and> \<not> visibleASCII (hd p) \<and> \<not> visibleASCII (last p)) spaceRunes"
    by (simp add: spaceRunes_def visibleASCII_def)
  then show "p \<in> set spaceRunes \<Longrightarrow> ?thesis" by (simp add: list_all_iff)
qed

lemma HasPrefix_Cons: "HasPrefix (b # s) p \<Longrightarrow> p \<noteq> [] \<Longrightarrow> hd p = b"
  by (cases p) (auto simp: HasPrefix_def)

lemma runeWidth_visible: "visibleASCII b \<Longrightarrow> runeWidth spaceRunes (b # s) = 0"
proof -
  assume b: "visibleASCII b"
  have "find (HasPrefix (b # s)) spaceRunes = None"
    unfolding find_None_iff using spaceRunes_ends HasPrefix_Cons b by blast
  then show ?thesis by (simp add: runeWidth_def)
qed

lemma runeWidth_rev_visible: "visibleASCII b \<Longrightarrow> runeWidth (map rev spaceRunes) (b # s) = 0"
proof -
  assume b: "visibleASCII b"
  have "\<not> HasPrefix (b # s) (rev p)" if "p \<in> set spaceRunes" for p
  proof
    assume h: "HasPrefix (b # s) (rev p)"
    have "p \<noteq> []" "\<not> visibleASCII (last p)" using spaceRunes_ends[OF that] by auto
    with HasPrefix_Cons[OF h] b show False by (simp add: hd_rev)
  qed
  then have "find (HasPrefix (b # s)) (map rev spaceRunes) = None"
    unfolding find_None_iff by auto
  then show ?thesis by (simp add: runeWidth_def)
qed

lemma dropRunes_stop: "runeWidth rs s = 0 \<Longrightarrow> dropRunes rs s = s"
  by (subst dropRunes.simps) simp

lemma dropRunes_LF: "dropRunes (map rev spaceRunes) (LF # s) = dropRunes (map rev spaceRunes) s"
  by (subst dropRunes.simps) (simp add: runeWidth_def spaceRunes_def HasPrefix_def LF_def)

lemma dropRunes_CR: "dropRunes (map rev spaceRunes) (CR # s) = dropRunes (map rev spaceRunes) s"
  by (subst dropRunes.simps) (simp add: runeWidth_def spaceRunes_def HasPrefix_def CR_def)

lemma TrimSpace_CRLF: "TrimSpace CRLF = []"
  by code_simp

lemma visible_not_LF: "list_all visibleASCII v \<Longrightarrow> LF \<notin> set v"
  by (auto simp: visibleASCII_def LF_def list_all_iff)

lemma visible_not_blank: "list_all visibleASCII v \<Longrightarrow> CHR '' '' \<notin> set v"
  by (auto simp: visibleASCII_def list_all_iff)

lemma TrimSpace_token_line:
  assumes "v \<noteq> []" "list_all visibleASCII v" "visibleASCII a"
  shows "TrimSpace (v @ m @ a # CR # [LF]) = v @ m @ [a]"
proof -
  obtain b v' where v: "v = b # v'" using assms(1) by (cases v) auto
  then have "visibleASCII b" using assms(2) by simp
  then have "dropRunes spaceRunes (v @ m @ a # CR # [LF]) = v @ m @ a # CR # [LF]"
    by (simp add: v dropRunes_stop runeWidth_visible)
  moreover have "dropRunes (map rev spaceRunes) (rev (v @ m @ a # CR # [LF]))
                 = a # rev m @ rev v"
    using assms(3) by (simp add: dropRunes_LF dropRunes_CR dropRunes_stop runeWidth_rev_visible)
  ultimately show ?thesis by (simp add: TrimSpace_def)
qed

lemma SplitN_token:
  "sep \<notin> set v \<Longrightarrow> SplitN (v @ sep # rest) sep (Suc (Suc n)) = v # SplitN rest sep (Suc n)"
  by (induction v) auto

lemma ReadString_line:
  "LF \<notin> set l \<Longrightarrow> ReadString (l @ LF # rest) = Some (l @ [LF], rest)"
proof -
  assume "LF \<notin> set l"
  then have a: "\<forall>c \<in> set l. c \<noteq> LF" by auto
  have "takeWhile (\<lambda>c. c \<noteq> LF) (l @ LF # rest) = l"
    using a by (induction l) auto
  moreover have "dropWhile (\<lambda>c. c \<noteq> LF) (l @ LF # rest) = LF # rest"
    using a by (induction l) auto
  ultimately show ?thesis by (simp add: ReadString_def)
qed

lemma readHeaders_blank: "readHeaders (CRLF @ rest) hs = (Some hs, rest)"
proof -
  have "ReadString (CRLF @ rest) = Some (CRLF, rest)"
    using ReadString_line[of "[CR]" rest] by (simp add: CRLF_def CR_def LF_def)
  then show ?thesis
    by (subst readHeaders.simps) (simp add: TrimSpace_CRLF)
qed

text \<open>A response that consists of a status line and the blank line: what \<open>readResponse\<close>
  does with the status line. The first field is not examined.\<close>

lemma readResponse_status_line:
  assumes "v \<noteq> []" "list_all visibleASCII v" "visibleASCII a" "LF \<notin> set m"
  shows "readResponse (v @ m @ a # CRLF @ CRLF)
         = (let statusLine = v @ m @ [a]; parts = SplitN statusLine (CHR '' '') 3
            in if length parts < 3 then (Inl (InvalidStatusLine statusLine), CRLF)
               else (case Atoi (parts ! 1) of
                       None \<Rightarrow> (Inl InvalidStatusCode, CRLF)
                     | Some statusCode \<Rightarrow>
                        (Inr \<lparr>StatusCode = statusCode, StatusText = parts ! 2,
                              Headers = Map.empty, Body = []\<rparr>, [])))"
proof -
  have "a \<noteq> LF" using assms(3) by (auto simp: visibleASCII_def LF_def)
  then have lf: "LF \<notin> set (v @ m @ [a, CR])"
    using visible_not_LF[OF assms(2)] assms(4) by (simp add: LF_def CR_def)
  have r: "ReadString (v @ m @ a # CRLF @ CRLF) = Some (v @ m @ a # CRLF, CRLF)"
    using ReadString_line[OF lf, of CRLF] by (simp add: CRLF_def)
  have t: "TrimSpace (v @ m @ a # CRLF) = v @ m @ [a]"
    using TrimSpace_token_line[OF assms(1-3)] by (simp add: CRLF_def)
  have h: "readHeaders CRLF Map.empty = (Some Map.empty, [])"
    using readHeaders_blank[of "[]" Map.empty] by simp
  show ?thesis
    by (simp add: readResponse_def r t h Let_def split: option.splits)
qed

text \<open>
  C5, as stated, fails: the response reader does not reject the status line
  \<open>HTTP/1.1 200 OK\<close>; it parses it to the status code 200 with the reason OK.
\<close>

theorem C5_HTTP_status_line_is_parsed:
  "readResponse (''HTTP/1.1 200 OK'' @ CRLF @ CRLF)
   = (Inr \<lparr>StatusCode = 200, StatusText = ''OK'', Headers = Map.empty, Body = []\<rparr>, [])"
proof -
  have "visibleASCII (CHR ''K'')" "list_all visibleASCII ''HTTP/1.1''"
    by (simp_all add: visibleASCII_def)
  from readResponse_status_line[of "''HTTP/1.1''" "CHR ''K''" "'' 200 O''"] this
  show ?thesis
    by (simp add: LF_def numeral_3_eq_3 Atoi_def isDigit_def digitsVal_def)
qed

text \<open>
  C5, amended: for every version field \<open>v\<close> that is a non-empty string of visible ASCII
  characters, the response reader parses the status line \<open>v 200 OK\<close> to the status code 200
  with the reason OK and \<open>v 401 Unauthorized\<close> to 401 with the reason Unauthorized: it does
  so for \<open>RTSP/1.0\<close>, and for \<open>HTTP/1.1\<close> as well, because the version field is not examined.
  It rejects the status line \<open>v 200\<close>, of fewer than three fields, and the status line
  \<open>v OK 200\<close>, whose second field is not a number.
\<close>

theorem C5_status_line_parsing:
  assumes "v \<noteq> []" "list_all visibleASCII v"
  shows "readResponse (v @ '' 200 OK'' @ CRLF @ CRLF)
     = (Inr \<lparr>StatusCode = 200, StatusText = ''OK'', Headers = Map.empty, Body = []\<rparr>, [])
   \<and> readResponse (v @ '' 401 Unauthorized'' @ CRLF @ CRLF)
     = (Inr \<lparr>StatusCode = 401, StatusText = ''Unauthorized'', Headers = Map.empty,
             Body = []\<rparr>, [])
   \<and> fst (readResponse (v @ '' 200'' @ CRLF @ CRLF)) = Inl (InvalidStatusLine (v @ '' 200''))
   \<and> fst (readResponse (v @ '' OK 200'' @ CRLF @ CRLF)) = Inl InvalidStatusCode"
proof -
  note sp = SplitN_token[OF visible_not_blank[OF assms(2)]]
  have s1: "SplitN (v @ '' 200 OK'') (CHR '' '') 3 = [v, ''200'', ''OK'']"
    using sp[of "''200 OK''" 1] by (simp add: numeral_3_eq_3)
  have s2: "SplitN (v @ '' 401 Unauthorized'') (CHR '' '') 3 = [v, ''401'', ''Unauthorized'']"
    using sp[of "''401 Unauthorized''" 1] by (simp add: numeral_3_eq_3)
  have s3: "SplitN (v @ '' 200'') (CHR '' '') 3 = [v, ''200'']"
    using sp[of "''200''" 1] by (simp add: numeral_3_eq_3)
  have s4: "SplitN (v @ '' OK 200'') (CHR '' '') 3 = [v, ''OK'', ''200'']"
    using sp[of "''OK 200''" 1] by (simp add: numeral_3_eq_3)
  have a1: "Atoi ''200'' = Some 200" "Atoi ''401'' = Some 401" "Atoi ''OK'' = None"
    by (simp_all add: Atoi_def isDigit_def digitsVal_def)
  have 1: "readResponse (v @ '' 200 OK'' @ CRLF @ CRLF)
     = (Inr \<lparr>StatusCode = 200, StatusText = ''OK'', Headers = Map.empty, Body = []\<rparr>, [])"
    using readResponse_status_line[OF assms, where a = "CHR ''K''" and m = "'' 200 O''"] s1 a1
    by (simp add: visibleASCII_def LF_def)
  have 2: "readResponse (v @ '' 401 Unauthorized'' @ CRLF @ CRLF)
     = (Inr \<lparr>StatusCode = 401, StatusText = ''Unauthorized'', Headers = Map.empty,
             Body = []\<rparr>, [])"
    using readResponse_status_line[OF assms, where a = "CHR ''d''" and m = "'' 401 Unauthorize''"]
      s2 a1
    by (simp add: visibleASCII_def LF_def)
  have 3: "fst (readResponse (v @ '' 200'' @ CRLF @ CRLF)) = Inl (InvalidStatusLine (v @ '' 200''))"
    using readResponse_status_line[OF assms, where a = "CHR ''0''" and m = "'' 20''"] s3
    by (simp add: visibleASCII_def LF_def)
  have 4: "fst (readResponse (v @ '' OK 200'' @ CRLF @ CRLF)) = Inl InvalidStatusCode"
    using readResponse_status_line[OF assms, where a = "CHR ''0''" and m = "'' OK 20''"] s4 a1
    by (simp add: visibleASCII_def LF_def)
  from 1 2 3 4 show ?thesis by blast
qed

theorem C5_status_line_parsing_witness:
  "''RTSP/1.0'' \<noteq> [] \<and> list_all visibleASCII ''RTSP/1.0''
   \<and> readResponse (''RTSP/1.0 200 OK'' @ CRLF @ CRLF)
     = (Inr \<lparr>StatusCode = 200, StatusText = ''OK'', Headers = Map.empty, Body = []\<rparr>, [])
   \<and> readResponse (''RTSP/1.0 401 Unauthorized'' @ CRLF @ CRLF)
     = (Inr \<lparr>StatusCode = 401, StatusText = ''Unauthorized'', Headers = Map.empty,
             Body = []\<rparr>, [])
   \<and> fst (readResponse (''RTSP/1.0 200'' @ CRLF @ CRLF))
     = Inl (InvalidStatusLine ''RTSP/1.0 200'')
   \<and> fst (readResponse (''RTSP/1.0 OK 200'' @ CRLF @ CRLF)) = Inl InvalidStatusCode"
proof -
  have h: "''RTSP/1.0'' \<noteq> []" "list_all visibleASCII ''RTSP/1.0''"
    by (simp_all add: visibleASCII_def)
  show ?thesis
    using h C5_status_line_parsing [OF h] by simp
qed

text \<open>The status line is trimmed before it is split, so a version field that is white space
  is lost: with a no-break space (U+00A0) for the version, two fields are left.\<close>

lemma readResponse_version_no_break_space:
  "(case fst (readResponse ([CHR 0xC2, CHR 0xA0] @ '' 200 OK'' @ CRLF @ CRLF)) of
      Inl e \<Rightarrow> Some e | Inr r \<Rightarrow> None) = Some (InvalidStatusLine ''200 OK'')"
  by code_simp

text \<open>The hexadecimal rendering of \<open>md5Hash\<close> is the one of the claim.\<close>

lemma hexDigit_table: "n < 16 \<Longrightarrow> ''0123456789abcdef'' ! n = spec_hexDigit n"
proof -
  have "list_all (\<lambda>n. ''0123456789abcdef'' ! n = spec_hexDigit n) [0..<16]"
    by (simp add: spec_hexDigit_def upt_rec)
  then show "n < 16 \<Longrightarrow> ?thesis" by (simp add: list_all_iff)
qed

lemma hexByte_spec: "hexByte b = [spec_hexDigit (unat b div 16), spec_hexDigit (unat b mod 16)]"
proof -
  have "unat b < 256" using unsigned_less[of b] by simp
  then have "unat b div 16 < 16" by simp
  then show ?thesis by (simp add: hexByte_def hexDigit_table)
qed

lemma md5Hash_spec: "md5Hash env data = spec_md5 env data"
proof -
  have "hexByte = (\<lambda>b. [spec_hexDigit (unat b div 16), spec_hexDigit (unat b mod 16)])"
    by (rule ext) (rule hexByte_spec)
  then show ?thesis by (simp add: md5Hash_def spec_md5_def)
qed

lemma md5Hash_example:
  "md5_Sum env data = [0xD4, 0x1D, 0x8C, 0xD9, 0x8F, 0x00, 0xB2, 0x04] \<Longrightarrow>
   md5Hash env data = ''d41d8cd98f00b204''"
  by (simp add: md5Hash_def hexByte_def)

text \<open>
  C6: for every user name, password, realm, nonce, method and URI, the Authorization header
  that the client builds in the Digest state carries
  response = md5(md5(user:realm:pass):nonce:md5(method:uri)), where md5 is the MD5 digest
  \<open>md5.Sum\<close> in lower-case hexadecimal digits (\<open>spec_md5\<close>).
\<close>

theorem C6_digest_response:
  "authMethod c = ''Digest'' \<Longrightarrow>
   buildAuthHeader env c method uri =
     ''Digest username='' @ dq @ username c @ dq @ '', realm='' @ dq @ realm c @ dq
     @ '', nonce='' @ dq @ nonce c @ dq @ '', uri='' @ dq @ uri @ dq @ '', response='' @ dq
     @ spec_md5 env (spec_md5 env (username c @ '':'' @ realm c @ '':'' @ password c)
                     @ '':'' @ nonce c @ '':'' @ spec_md5 env (method @ '':'' @ uri))
     @ dq"
  by (simp add: buildAuthHeader_def Let_def md5Hash_spec)

theorem C6_digest_response_witness:
  "\<forall>env. authMethod digestClient = ''Digest'' \<and>
     buildAuthHeader env digestClient ''DESCRIBE'' ''rtsp://x/'' =
       ''Digest username='' @ dq @ ''admin'' @ dq @ '', realm='' @ dq @ ''IPCam'' @ dq
       @ '', nonce='' @ dq @ ''abc'' @ dq @ '', uri='' @ dq @ ''rtsp://x/'' @ dq
       @ '', response='' @ dq
       @ spec_md5 env (spec_md5 env ''admin:IPCam:12345'' @ '':abc:''
                       @ spec_md5 env ''DESCRIBE:rtsp://x/'')
       @ dq"
proof
  fix env
  have h: "authMethod digestClient = ''Digest''" by (simp add: digestClient_def)
  show "authMethod digestClient = ''Digest'' \<and>
     buildAuthHeader env digestClient ''DESCRIBE'' ''rtsp://x/'' =
       ''Digest username='' @ dq @ ''admin'' @ dq @ '', realm='' @ dq @ ''IPCam'' @ dq
       @ '', nonce='' @ dq @ ''abc'' @ dq @ '', uri='' @ dq @ ''rtsp://x/'' @ dq
       @ '', response='' @ dq
       @ spec_md5 env (spec_md5 env ''admin:IPCam:12345'' @ '':abc:''
                       @ spec_md5 env ''DESCRIBE:rtsp://x/'')
       @ dq"
    using h C6_digest_response [OF h, of env "''DESCRIBE''" "''rtsp://x/''"]
    by (simp add: digestClient_def)
qed

section \<open>Properties of the SDP parser\<close>

lemma bindP_Inr [simp]: "bindP (Inr x) f = f x"
  by (simp add: bindP_def)

lemma bindP_Inl [simp]: "bindP (Inl e) f = Inl e"
  by (simp add: bindP_def)

lemma indexAt_ok [simp]: "i < length xs \<Longrightarrow> indexAt xs i = Inr (xs ! i)"
  by (simp add: indexAt_def)

lemma indexAt_first [simp]: "2 \<le> length xs \<Longrightarrow> indexAt xs 0 = Inr (xs ! 0)"
  by (cases xs) (simp_all add: indexAt_def)

lemma sliceFrom_ok [simp]: "i \<le> length s \<Longrightarrow> sliceFrom s i = Inr (drop i s)"
  by (simp add: sliceFrom_def)

lemma sliceTo_ok [simp]: "j \<le> length s \<Longrightarrow> sliceTo s j = Inr (take j s)"
  by (simp add: sliceTo_def)

lemma slice_ok [simp]:
  "i \<le> j \<Longrightarrow> j \<le> length s \<Longrightarrow> slice s i j = Inr (take (j - i) (drop i s))"
  by (simp add: slice_def)

lemma updateAt_ok [simp]: "i < length xs \<Longrightarrow> updateAt xs i f = Inr (xs[i := f (xs ! i)])"
  by (simp add: updateAt_def)


lemma Split_nonempty [simp]: "Split s c \<noteq> []"
  by (induction s) (auto split: list.splits)






















text \<open>The fixture of the specification, and an input whose lines are wrapped in Unicode
  white space.\<close>

lemma ParseSDP_fixture:
  "map_sum id (\<lambda>(info, err). (si_Codec info, si_FPS info, si_Resolution info, err))
     (ParseSDP fixtureLib
        (''m=video 0 RTP/AVP 96'' @ [LF] @ ''a=rtpmap:96 H264/90000'' @ [LF]
         @ ''a=framerate:25'' @ [LF] @ ''a=x-dimensions:1920x1080''))
   = Inr (''H.264'', 25, ''1920x1080'', None)"
  by code_simp

lemma ParseSDP_unicode_space:
  "map_sum id (\<lambda>(info, err). (si_Codec info, map vt_Codec (VideoTracks info), err))
     (ParseSDP fixtureLib
        ([CHR 0xC2, CHR 0xA0] @ ''m=video 0 RTP/AVP 96'' @ [CHR 0xC2, CHR 0xA0] @ [LF]
         @ [CHR 0xC2, CHR 0x85] @ ''a=rtpmap:96 H264/90000''))
   = Inr (''H.264'', [''H.264''], None)"
  by code_simp

lemma Fields_unicode:
  "Fields (''video'' @ [CHR 0xE2, CHR 0x80, CHR 0x83] @ ''0 RTP/AVP'' @ [CHR 0xC2, CHR 0xA0]
           @ ''96 '') = [''video'', ''0'', ''RTP/AVP'', ''96'']"
  by code_simp

lemma TrimSpace_examples:
  "TrimSpace ([CHR 0xE3, CHR 0x80, CHR 0x80] @ '' a b ''
              @ [CHR 0xE2, CHR 0x80, CHR 0xA8, CHR 0x0D, CHR 0x0A]) = ''a b''"
  "TrimSpace [CHR 0xC2, CHR 0x20] = [CHR 0xC2]"
  "TrimSpace [CHR 0x80, CHR 0xA8] = [CHR 0x80, CHR 0xA8]"
  "TrimSpace ''   '' = []"
  by code_simp+

end
